theory Spec2Isabelle
  imports Main
begin

section \<open>JavaScript values built by the description functions\<close>

text \<open>
  The description functions of \<^verbatim>\<open>description.js\<close> build nested arrays of strings, numbers,
  \<^verbatim>\<open>null\<close>/\<^verbatim>\<open>undefined\<close> and (in jsx mode) React elements, and only at the very end
  flatten them and join them into one string. \<open>Elem tag child\<close> is the element
  \<^verbatim>\<open><tag>{child}</tag>\<close>.
\<close>

datatype js =
    Str string
  | Num int
  | Null
  | Undefined
  | Arr "js list"
  | Elem string js

text \<open>Decimal digits of a number, as \<^verbatim>\<open>String(n)\<close> prints an integer.\<close>

fun string_of_nat :: "nat \<Rightarrow> string" where
  "string_of_nat n =
     (if n < 10 then [char_of (48 + n)]
      else string_of_nat (n div 10) @ [char_of (48 + n mod 10)])"

declare string_of_nat.simps [simp del]

definition string_of_int :: "int \<Rightarrow> string" where
  "string_of_int i = (if i < 0 then ''-'' @ string_of_nat (nat (- i)) else string_of_nat (nat i))"

text \<open>\<^verbatim>\<open>strings.join(sep)\<close> on strings.\<close>

fun join_strings :: "string \<Rightarrow> string list \<Rightarrow> string" where
  "join_strings sep [] = []"
| "join_strings sep [s] = s"
| "join_strings sep (s # t # ss) = s @ sep @ join_strings sep (t # ss)"

text \<open>
  \<^verbatim>\<open>String(v)\<close>, the conversion behind \<^verbatim>\<open>v + " "\<close> and behind \<^verbatim>\<open>Array.prototype.join\<close>:
  an array prints its elements separated by commas, where a \<^verbatim>\<open>null\<close> or \<^verbatim>\<open>undefined\<close>
  element prints as the empty string; an object prints as \<^verbatim>\<open>[object Object]\<close>.
\<close>

fun to_string :: "js \<Rightarrow> string" where
  "to_string (Str s) = s"
| "to_string (Num i) = string_of_int i"
| "to_string Null = ''null''"
| "to_string Undefined = ''undefined''"
| "to_string (Arr xs) =
     join_strings '','' (map (\<lambda>x. if x = Null \<or> x = Undefined then [] else to_string x) xs)"
| "to_string (Elem tag child) = ''[object Object]''"

text \<open>\<^verbatim>\<open>list.join(sep)\<close> on an array of values.\<close>

definition js_join :: "string \<Rightarrow> js list \<Rightarrow> string" where
  "js_join sep xs =
     join_strings sep (map (\<lambda>x. if x = Null \<or> x = Undefined then [] else to_string x) xs)"

text \<open>\<^verbatim>\<open>!!v\<close>\<close>

fun truthy :: "js \<Rightarrow> bool" where
  "truthy (Str s) = (s \<noteq> [])"
| "truthy (Num i) = (i \<noteq> 0)"
| "truthy Null = False"
| "truthy Undefined = False"
| "truthy (Arr xs) = True"
| "truthy (Elem tag child) = True"

text \<open>
  \<^verbatim>\<open>_.flatten(input)\<close> of underscore, deep. It walks \<^verbatim>\<open>input\<close> through its
  \<^verbatim>\<open>length\<close>: each element that is an array is flattened in turn and spliced in, every
  other element is kept as it is (\<open>flatten_element\<close>). \<^verbatim>\<open>null\<close>, \<^verbatim>\<open>undefined\<close>, numbers and
  objects have no length and give the empty array; a string gives its characters.
\<close>

fun flatten_element :: "js \<Rightarrow> js list" where
  "flatten_element (Arr ys) = concat (map flatten_element ys)"
| "flatten_element v = [v]"

definition flatten :: "js \<Rightarrow> js list" where
  "flatten input =
     (case input of
        Arr xs \<Rightarrow> concat (map flatten_element xs)
      | Str s \<Rightarrow> map (\<lambda>c. Str [c]) s
      | _ \<Rightarrow> [])"

text \<open>
  \<^verbatim>\<open>
  function joinList(list, joiner) {
    return _.flatten(
      list.map((l, i) => (i === list.length - 1 ? [l] : [l, joiner])),
      true,
    );
  }
  \<close>
  The shallow flatten splices the one- and two-element arrays.
\<close>

fun joinList :: "js list \<Rightarrow> js \<Rightarrow> js list" where
  "joinList [] joiner = []"
| "joinList [l] joiner = [l]"
| "joinList (l # m # ls) joiner = l # joiner # joinList (m # ls) joiner"

text \<open>
  \<^verbatim>\<open>
  function conjunctList(list, conjunction) {
    switch (list.length) {
      case 0: return null;
      case 1: return list[0];
      case 2: return [list[0], " ", conjunction, " ", list[1]];
      default:
        return [list.slice(0, -1).join(", "), ", ", conjunction, " ", list[list.length - 1]];
    }
  }
  \<close>
\<close>

fun conjunctList :: "js list \<Rightarrow> js \<Rightarrow> js" where
  "conjunctList [] conjunction = Null"
| "conjunctList [a] conjunction = a"
| "conjunctList [a, b] conjunction = Arr [a, Str '' '', conjunction, Str '' '', b]"
| "conjunctList (a # b # c # ds) conjunction =
     Arr [Str (js_join '', '' (butlast (a # b # c # ds))), Str '', '', conjunction, Str '' '',
          last (a # b # c # ds)]"

text \<open>
  The end of \<^verbatim>\<open>generateQueryDescription\<close> in plain-string mode, for one section value:
  \<^verbatim>\<open>_.flatten(v).filter(s => !!s)\<close>, later joined with \<^verbatim>\<open>join("")\<close>.
\<close>

definition section_parts :: "js \<Rightarrow> js list" where
  "section_parts v = filter truthy (flatten v)"

definition plain_text :: "js \<Rightarrow> string" where
  "plain_text v = js_join [] (section_parts v)"


section \<open>Queries, clauses and table metadata\<close>

text \<open>
  A field reference \<^verbatim>\<open>["field", id, options]\<close> carries the options the code reads or
  writes: the temporal unit, the binning strategy and the foreign key it is reached through.
  \<^verbatim>\<open>["expression", name]\<close> and \<^verbatim>\<open>["aggregation", index]\<close> are the other references.
\<close>

record field_options =
  temporal_unit :: "string option"
  binning :: "string option"
  source_field :: "nat option"

datatype field_ref =
    FieldRef nat field_options
  | ExpressionRef string
  | AggregationRef nat

text \<open>
  The second element of a clause: a reference, or the relative offset
  \<^verbatim>\<open>["+", field, ["interval", n, unit]]\<close> that \<^verbatim>\<open>getFilterClauseDescription\<close> looks for.
\<close>

datatype mbql_arg =
    Ref field_ref
  | Plus field_ref int string

datatype literal = LNum int | LStr string

text \<open>
  Aggregation clauses by their tag (\<^verbatim>\<open>aggregation[0]\<close>);
  \<open>AggregationOptions content name\<close> is \<^verbatim>\<open>["aggregation-options", content, {"display-name": name}]\<close>
  and \<open>OtherAggregation\<close> any clause with another tag, named by its text.
\<close>

datatype aggregation =
    Rows
  | Count
  | CumCount
  | Avg mbql_arg
  | Distinct mbql_arg
  | Stddev mbql_arg
  | SumOf mbql_arg
  | CumSum mbql_arg
  | MaxOf mbql_arg
  | MinOf mbql_arg
  | Metric nat
  | AggregationOptions aggregation "string option"
  | OtherAggregation string

text \<open>
  Filter clauses by their tag (\<^verbatim>\<open>filter[0]\<close>): the connectives, \<^verbatim>\<open>["segment", id]\<close>, and
  \<open>FieldFilter operator arg operands\<close> for \<^verbatim>\<open>[operator, arg, ...operands]\<close>.
\<close>

datatype filter_clause =
    AndF "filter_clause list"
  | OrF "filter_clause list"
  | SegmentF nat
  | FieldFilter string mbql_arg "literal list"

text \<open>The query object the description functions read.\<close>

record query =
  q_aggregation :: "aggregation list"
  q_breakout :: "field_ref list"
  q_filter :: "filter_clause option"
  q_order_by :: "(string \<times> field_ref) list"
  q_limit :: "int option"

record fieldDef =
  fd_display_name :: "string option"
  fd_name :: "string option"

record metric =
  metric_id :: nat
  metric_name :: string

record segment =
  segment_id :: nat
  segment_name :: string

record table_metadata =
  md_display_name :: string
  md_metrics :: "metric list"
  md_segments :: "segment list"
  md_fields :: "(nat \<times> fieldDef) list"

text \<open>The result of \<^verbatim>\<open>FIELD_REF.getFieldTarget\<close>: \<^verbatim>\<open>{ path, field, unit }\<close>.\<close>

record target =
  t_path :: "fieldDef list option"
  t_field :: "fieldDef option"
  t_unit :: "string option"

datatype error = ResolutionError

text \<open>
  What the description functions call and this repository's sources do not hold: the
  \<^verbatim>\<open>inflection\<close> package (\<open>pluralize\<close>, \<open>inflect\<close>), \<^verbatim>\<open>stripId\<close> of
  \<^verbatim>\<open>metabase/lib/formatting\<close>, \<^verbatim>\<open>getFieldTarget\<close> of \<^verbatim>\<open>./field-ref\<close> (it may throw, or
  return nothing so that reading \<^verbatim>\<open>target.path\<close> throws: both are \<open>Inl\<close>) and
  \<^verbatim>\<open>format\<close> of \<^verbatim>\<open>metabase/lib/expressions/format\<close>. They are parameters of the model.
\<close>

record env =
  pluralize :: "string \<Rightarrow> string"
  inflect :: "string \<Rightarrow> int \<Rightarrow> string"
  stripId :: "js \<Rightarrow> js"
  getFieldTarget :: "mbql_arg \<Rightarrow> table_metadata \<Rightarrow> error + target"
  formatExpression :: "aggregation \<Rightarrow> table_metadata \<Rightarrow> string"

datatype section_name = Table | Aggregation | Breakout | Filter | OrderBy | Limit

text \<open>The options a caller passes; a field left out is \<open>None\<close>.\<close>

record options =
  jsx :: "bool option"
  sections :: "section_name list option"

definition is_jsx :: "options \<Rightarrow> bool" where
  "is_jsx opts = (jsx opts = Some True)"

text \<open>
  Modelled from the spec: \<^verbatim>\<open>QUERY.getAggregations\<close> and \<^verbatim>\<open>QUERY.getFilters\<close> of \<^verbatim>\<open>./query\<close>
  are not among the sources. The aggregation group is a sequence of aggregation clauses, and
  the filter description "flattens the filter tree's outermost connective (defaulting to an
  implicit and if the top-level list is not already wrapped)".
\<close>

definition getAggregations :: "query \<Rightarrow> aggregation list" where
  "getAggregations q = q_aggregation q"

definition getFilters :: "query \<Rightarrow> filter_clause list" where
  "getFilters q =
     (case q_filter q of
        None \<Rightarrow> []
      | Some (AndF fs) \<Rightarrow> fs
      | Some f \<Rightarrow> [f])"

section \<open>The query-description generator\<close>

definition js_of_option :: "string option \<Rightarrow> js" where
  "js_of_option v = (case v of None \<Rightarrow> Undefined | Some s \<Rightarrow> Str s)"

text \<open>\<^verbatim>\<open>a || b\<close>\<close>

definition js_or :: "js \<Rightarrow> js \<Rightarrow> js" where
  "js_or a b = (if truthy a then a else b)"

text \<open>
  \<^verbatim>\<open>
  export function formatField(fieldDef, options = {}) {
    const name = stripId(fieldDef && (fieldDef.display_name || fieldDef.name));
    return name;
  }
  \<close>
\<close>

definition formatField :: "env \<Rightarrow> fieldDef option \<Rightarrow> js" where
  "formatField e fieldDef =
     stripId e
       (case fieldDef of
          None \<Rightarrow> Undefined
        | Some d \<Rightarrow> js_or (js_of_option (fd_display_name d)) (js_of_option (fd_name d)))"

text \<open>The separator \<^verbatim>\<open>" -> "\<close> of a join path, written with the arrow U+2192 in UTF-8.\<close>

definition path_arrow :: string where
  "path_arrow = [CHR '' '', char_of (226::nat), char_of (134::nat), char_of (146::nat), CHR '' '']"

text \<open>
  \<^verbatim>\<open>
  export function getFieldName(tableMetadata, field, options) {
    try {
      const target = FIELD_REF.getFieldTarget(field, tableMetadata);
      const components = [];
      if (target.path) {
        for (const fieldDef of target.path) {
          components.push(formatField(fieldDef, options), " -> ");
        }
      }
      components.push(formatField(target.field, options));
      if (target.unit) {
        components.push(` (${target.unit})`);
      }
      return components;
    } catch (e) {
      console.warn(...);
    }
    return "[Unknown Field]";
  }
  \<close>
\<close>

definition getFieldName :: "env \<Rightarrow> table_metadata \<Rightarrow> mbql_arg \<Rightarrow> js" where
  "getFieldName e tableMetadata field =
     (case getFieldTarget e field tableMetadata of
        Inl err \<Rightarrow> Str ''[Unknown Field]''
      | Inr tgt \<Rightarrow>
          Arr ((case t_path tgt of
                  None \<Rightarrow> []
                | Some p \<Rightarrow> concat (map (\<lambda>fieldDef. [formatField e (Some fieldDef), Str path_arrow]) p))
               @ [formatField e (t_field tgt)]
               @ (case t_unit tgt of
                    None \<Rightarrow> []
                  | Some u \<Rightarrow> if u \<noteq> [] then [Str ('' ('' @ u @ '')'')] else [])))"

text \<open>
  \<^verbatim>\<open>
  export function getTableDescription(tableMetadata) {
    return [inflection.pluralize(tableMetadata.display_name)];
  }
  \<close>
\<close>

definition getTableDescription :: "env \<Rightarrow> table_metadata \<Rightarrow> js" where
  "getTableDescription e tableMetadata = Arr [Str (pluralize e (md_display_name tableMetadata))]"

text \<open>\<^verbatim>\<open>_.findWhere(list, { id })\<close>: the first entry with that id.\<close>

definition findMetric :: "metric list \<Rightarrow> nat \<Rightarrow> metric option" where
  "findMetric ms i = find (\<lambda>m. metric_id m = i) ms"

definition findSegment :: "segment list \<Rightarrow> nat \<Rightarrow> segment option" where
  "findSegment ss i = find (\<lambda>s. segment_id s = i) ss"

text \<open>
  Modelled from the spec: the helpers of \<^verbatim>\<open>./aggregation\<close> are not among the sources.
  "A named-wrapper carries a display name and wraps an inner clause"; "if the clause
  carries an explicit display name, use it verbatim".
\<close>

fun hasOptions :: "aggregation \<Rightarrow> bool" where
  "hasOptions (AggregationOptions content name) = True"
| "hasOptions a = False"

fun isNamed :: "aggregation \<Rightarrow> bool" where
  "isNamed (AggregationOptions content (Some name)) = (name \<noteq> [])"
| "isNamed a = False"

fun getName :: "aggregation \<Rightarrow> js" where
  "getName (AggregationOptions content name) = js_of_option name"
| "getName a = Undefined"

fun getContent :: "aggregation \<Rightarrow> aggregation" where
  "getContent (AggregationOptions content name) = content"
| "getContent a = a"

text \<open>
  One aggregation clause of \<^verbatim>\<open>getAggregationDescription\<close>, after the wrapper has been
  taken off: the metric lookup, then the \<^verbatim>\<open>switch (aggregation[0])\<close>.
\<close>

fun describeAggregationContent :: "env \<Rightarrow> table_metadata \<Rightarrow> options \<Rightarrow> aggregation \<Rightarrow> js" where
  "describeAggregationContent e md opts (Metric i) =
     (let name = (case findMetric (md_metrics md) i of
                    Some m \<Rightarrow> metric_name m
                  | None \<Rightarrow> ''[Unknown Metric]'')
      in Arr [if is_jsx opts then Elem ''MetricClause'' (Str name) else Str name])"
| "describeAggregationContent e md opts Rows = Arr [Str ''Raw data'']"
| "describeAggregationContent e md opts Count = Arr [Str ''Count'']"
| "describeAggregationContent e md opts CumCount = Arr [Str ''Cumulative count'']"
| "describeAggregationContent e md opts (Avg f) = Arr [Str ''Average of '', getFieldName e md f]"
| "describeAggregationContent e md opts (Distinct f) =
     Arr [Str ''Distinct values of '', getFieldName e md f]"
| "describeAggregationContent e md opts (Stddev f) =
     Arr [Str ''Standard deviation of '', getFieldName e md f]"
| "describeAggregationContent e md opts (SumOf f) = Arr [Str ''Sum of '', getFieldName e md f]"
| "describeAggregationContent e md opts (CumSum f) =
     Arr [Str ''Cumulative sum of '', getFieldName e md f]"
| "describeAggregationContent e md opts (MaxOf f) = Arr [Str ''Maximum of '', getFieldName e md f]"
| "describeAggregationContent e md opts (MinOf f) = Arr [Str ''Minimum of '', getFieldName e md f]"
| "describeAggregationContent e md opts a = Arr [Str (formatExpression e a md)]"

text \<open>
  \<^verbatim>\<open>
  aggregation => {
    if (AGGREGATION.hasOptions(aggregation)) {
      if (AGGREGATION.isNamed(aggregation)) {
        return [AGGREGATION.getName(aggregation)];
      }
      aggregation = AGGREGATION.getContent(aggregation);
    }
    if (AGGREGATION.isMetric(aggregation)) { ... }
    switch (aggregation[0]) { ... }
  }
  \<close>
\<close>

definition describeAggregation :: "env \<Rightarrow> table_metadata \<Rightarrow> options \<Rightarrow> aggregation \<Rightarrow> js" where
  "describeAggregation e md opts a =
     (if hasOptions a then
        (if isNamed a then Arr [getName a]
         else describeAggregationContent e md opts (getContent a))
      else describeAggregationContent e md opts a)"

definition getAggregationDescription :: "env \<Rightarrow> table_metadata \<Rightarrow> query \<Rightarrow> options \<Rightarrow> js" where
  "getAggregationDescription e md q opts =
     conjunctList (map (describeAggregation e md opts) (getAggregations q)) (Str ''and'')"

text \<open>
  \<^verbatim>\<open>
  export function getBreakoutDescription(tableMetadata, { breakout }, options) {
    if (breakout && breakout.length > 0) {
      return [t`Grouped by `,
              joinList(breakout.map(b => getFieldName(tableMetadata, b, options)), " and ")];
    }
  }
  \<close>
\<close>

definition getBreakoutDescription :: "env \<Rightarrow> table_metadata \<Rightarrow> query \<Rightarrow> options \<Rightarrow> js" where
  "getBreakoutDescription e md q opts =
     (if q_breakout q \<noteq> [] then
        Arr [Str ''Grouped by '',
             Arr (joinList (map (\<lambda>b. getFieldName e md (Ref b)) (q_breakout q)) (Str '' and ''))]
      else Undefined)"

text \<open>
  \<^verbatim>\<open>
  export function getFilterClauseDescription(tableMetadata, filter, options) {
    if (filter[0] === "and" || filter[0] === "or") {
      const clauses = filter.slice(1)
        .map(f => getFilterClauseDescription(tableMetadata, f, options));
      return conjunctList(clauses, filter[0].toLowerCase());
    } else if (filter[0] === "segment") {
      const segment = _.findWhere(tableMetadata.segments, { id: filter[1] });
      const name = segment ? segment.name : "[Unknown Segment]";
      return options.jsx ? <FilterClause>{name}</FilterClause> : name;
    } else if (filter[0] === "between" && filter[1][0] === "+") {
      return getFieldName(tableMetadata, filter[1][1], options);
    } else {
      return getFieldName(tableMetadata, filter[1], options);
    }
  }
  \<close>
\<close>

fun getFilterClauseDescription :: "env \<Rightarrow> table_metadata \<Rightarrow> options \<Rightarrow> filter_clause \<Rightarrow> js" where
  "getFilterClauseDescription e md opts (AndF fs) =
     conjunctList (map (getFilterClauseDescription e md opts) fs) (Str ''and'')"
| "getFilterClauseDescription e md opts (OrF fs) =
     conjunctList (map (getFilterClauseDescription e md opts) fs) (Str ''or'')"
| "getFilterClauseDescription e md opts (SegmentF i) =
     (let name = (case findSegment (md_segments md) i of
                    Some s \<Rightarrow> segment_name s
                  | None \<Rightarrow> ''[Unknown Segment]'')
      in if is_jsx opts then Elem ''FilterClause'' (Str name) else Str name)"
| "getFilterClauseDescription e md opts (FieldFilter operator (Plus f n u) operands) =
     (if operator = ''between'' then getFieldName e md (Ref f)
      else getFieldName e md (Plus f n u))"
| "getFilterClauseDescription e md opts (FieldFilter operator (Ref f) operands) =
     getFieldName e md (Ref f)"

text \<open>
  \<^verbatim>\<open>
  export function getFilterDescription(tableMetadata, query, options) {
    // getFilters returns list of filters without the implied "and"
    const filters = ["and"].concat(QUERY.getFilters(query));
    if (filters && filters.length > 1) {
      return [t`Filtered by `, getFilterClauseDescription(tableMetadata, filters, options)];
    }
  }
  \<close>
\<close>

definition getFilterDescription :: "env \<Rightarrow> table_metadata \<Rightarrow> query \<Rightarrow> options \<Rightarrow> js" where
  "getFilterDescription e md q opts =
     (if getFilters q \<noteq> [] then
        Arr [Str ''Filtered by '', getFilterClauseDescription e md opts (AndF (getFilters q))]
      else Undefined)"

text \<open>
  \<^verbatim>\<open>
  export function getOrderByDescription(tableMetadata, query, options) {
    const orderBy = query["order-by"];
    if (orderBy && orderBy.length > 0) {
      return [t`Sorted by `,
        joinList(orderBy.map(([direction, field]) => {
            const name = FIELD_REF.isAggregateField(field)
              ? getAggregationDescription(tableMetadata, query, options)
              : getFieldName(tableMetadata, field, options);
            return name + " " + (direction === "asc" ? "ascending" : "descending");
          }), " and ")];
    }
  }
  \<close>
\<close>

fun isAggregateField :: "field_ref \<Rightarrow> bool" where
  "isAggregateField (AggregationRef i) = True"
| "isAggregateField f = False"

definition getOrderByDescription :: "env \<Rightarrow> table_metadata \<Rightarrow> query \<Rightarrow> options \<Rightarrow> js" where
  "getOrderByDescription e md q opts =
     (if q_order_by q \<noteq> [] then
        Arr [Str ''Sorted by '',
             Arr (joinList
                    (map (\<lambda>(direction, field).
                            let name = (if isAggregateField field
                                        then getAggregationDescription e md q opts
                                        else getFieldName e md (Ref field))
                            in Str (to_string name @ '' '' @
                                    (if direction = ''asc'' then ''ascending'' else ''descending'')))
                         (q_order_by q))
                    (Str '' and ''))]
      else Undefined)"

text \<open>
  \<^verbatim>\<open>
  export function getLimitDescription(tableMetadata, { limit }) {
    if (limit != null) {
      return [limit, " ", inflection.inflect("row", limit)];
    }
  }
  \<close>
\<close>

definition getLimitDescription :: "env \<Rightarrow> table_metadata \<Rightarrow> query \<Rightarrow> js" where
  "getLimitDescription e md q =
     (case q_limit q of
        Some limit \<Rightarrow> Arr [Num limit, Str '' '', Str (inflect e ''row'' limit)]
      | None \<Rightarrow> Undefined)"

text \<open>
  \<^verbatim>\<open>
  options = { jsx: false, sections: ["table", "aggregation", "breakout", "filter",
                                     "order-by", "limit"], ...options };
  \<close>
\<close>

definition default_sections :: "section_name list" where
  "default_sections = [Table, Aggregation, Breakout, Filter, OrderBy, Limit]"

definition sections_of :: "options \<Rightarrow> section_name list" where
  "sections_of opts = (case sections opts of None \<Rightarrow> default_sections | Some ss \<Rightarrow> ss)"

definition no_options :: options where
  "no_options = \<lparr>jsx = None, sections = None\<rparr>"

fun sectionFns :: "section_name \<Rightarrow> env \<Rightarrow> table_metadata \<Rightarrow> query \<Rightarrow> options \<Rightarrow> js" where
  "sectionFns Table e md q opts = getTableDescription e md"
| "sectionFns Aggregation e md q opts = getAggregationDescription e md q opts"
| "sectionFns Breakout e md q opts = getBreakoutDescription e md q opts"
| "sectionFns Filter e md q opts = getFilterDescription e md q opts"
| "sectionFns OrderBy e md q opts = getOrderByDescription e md q opts"
| "sectionFns Limit e md q opts = getLimitDescription e md q"

text \<open>
  \<^verbatim>\<open>
  export function generateQueryDescription(tableMetadata, query, options = {}) {
    if (!tableMetadata) { return ""; }
    options = { ...defaults, ...options };
    const sections = options.sections
      .map(section =>
        _.flatten(sectionFns[section](tableMetadata, query, options)).filter(s => !!s))
      .filter(s => s && s.length > 0);
    const description = _.flatten(joinList(sections, ", "));
    if (options.jsx) {
      return <span>{description}</span>;
    } else {
      return description.join("");
    }
  }
  \<close>
  \<open>describe_sections\<close> is the part both \<^verbatim>\<open>generateQueryDescription\<close> and
  \<^verbatim>\<open>formatQueryDescription\<close> end with.
\<close>

definition describe_sections :: "(section_name \<Rightarrow> js) \<Rightarrow> section_name list \<Rightarrow> bool \<Rightarrow> js" where
  "describe_sections fns secs as_jsx =
     (let parts = filter (\<lambda>s. s \<noteq> []) (map (\<lambda>sec. section_parts (fns sec)) secs);
          description = flatten (Arr (joinList (map Arr parts) (Str '', '')))
      in if as_jsx then Elem ''span'' (Arr description)
         else Str (js_join [] description))"

definition generateQueryDescription ::
  "env \<Rightarrow> table_metadata option \<Rightarrow> query \<Rightarrow> options \<Rightarrow> js" where
  "generateQueryDescription e tableMetadata q opts =
     (case tableMetadata of
        None \<Rightarrow> Str []
      | Some md \<Rightarrow>
          describe_sections (\<lambda>sec. sectionFns sec e md q opts) (sections_of opts) (is_jsx opts))"

section \<open>A concrete environment\<close>

text \<open>
  To run the description functions on examples, the parameters are instantiated: words get
  an \<^verbatim>\<open>s\<close> unless they end in one, \<^verbatim>\<open>inflect\<close> keeps the singular for the count 1,
  \<^verbatim>\<open>stripId\<close> leaves names without a trailing \<^verbatim>\<open>id\<close> as they are, and a field resolves
  when the table's fields hold its id, with its temporal unit.
\<close>

definition sample_pluralize :: "string \<Rightarrow> string" where
  "sample_pluralize w = (if w \<noteq> [] \<and> last w = CHR ''s'' then w else w @ ''s'')"

definition sample_inflect :: "string \<Rightarrow> int \<Rightarrow> string" where
  "sample_inflect w n = (if n = 1 then w else sample_pluralize w)"

fun sample_getFieldTarget :: "mbql_arg \<Rightarrow> table_metadata \<Rightarrow> error + target" where
  "sample_getFieldTarget (Ref (FieldRef i opts)) md =
     (case map_of (md_fields md) i of
        None \<Rightarrow> Inl ResolutionError
      | Some d \<Rightarrow> Inr \<lparr>t_path = Some [], t_field = Some d, t_unit = temporal_unit opts\<rparr>)"
| "sample_getFieldTarget a md = Inl ResolutionError"

definition sample_env :: env where
  "sample_env =
     \<lparr>pluralize = sample_pluralize,
      inflect = sample_inflect,
      stripId = (\<lambda>v. v),
      getFieldTarget = sample_getFieldTarget,
      formatExpression = (\<lambda>a md. case a of OtherAggregation s \<Rightarrow> s | _ \<Rightarrow> [])\<rparr>"

definition plain_field :: "nat \<Rightarrow> field_ref" where
  "plain_field i = FieldRef i \<lparr>temporal_unit = None, binning = None, source_field = None\<rparr>"

definition orders_metadata :: table_metadata where
  "orders_metadata =
     \<lparr>md_display_name = ''Orders'',
      md_metrics = [\<lparr>metric_id = 1, metric_name = ''Revenue''\<rparr>],
      md_segments = [\<lparr>segment_id = 1, segment_name = ''Large orders''\<rparr>],
      md_fields = [(1, \<lparr>fd_display_name = Some ''Created At'', fd_name = Some ''CREATED_AT''\<rparr>),
                   (2, \<lparr>fd_display_name = Some ''Status'', fd_name = Some ''STATUS''\<rparr>)]\<rparr>"

text \<open>
  \<^verbatim>\<open>{aggregation: [["count"]], breakout: [fieldA], filter: ["and", ["=", fieldB, 5]], limit: 10}\<close>
  with \<open>fieldA\<close> the field 1 and \<open>fieldB\<close> the field 2 of \<open>orders_metadata\<close>.
\<close>

definition orders_query :: query where
  "orders_query =
     \<lparr>q_aggregation = [Count],
      q_breakout = [plain_field 1],
      q_filter = Some (AndF [FieldFilter ''='' (Ref (plain_field 2)) [LNum 5]]),
      q_order_by = [],
      q_limit = Some 10\<rparr>"


section \<open>The formatter of server-described queries\<close>

text \<open>
  The \<^verbatim>\<open>query_description\<close> payload of the Segment and Metric APIs: every entry already
  carries display strings. An absent group and an empty one are treated alike by the code
  (\<^verbatim>\<open>!filter || !filter.length\<close>), so a group is a list.
\<close>

record aggregation_entry =
  ae_type :: string
  ae_arg :: "string option"

record filter_entry =
  fe_segment :: "string option"
  fe_field :: "string option"

record order_by_entry =
  oe_field :: "string option"
  oe_direction :: string

record parts =
  p_table :: string
  p_aggregation :: "aggregation_entry list"
  p_breakout :: "string list"
  p_filter :: "filter_entry list"
  p_order_by :: "order_by_entry list"
  p_limit :: "int option"

definition formatTableDescription :: "env \<Rightarrow> parts \<Rightarrow> js" where
  "formatTableDescription e p = Arr [Str (pluralize e (p_table p))]"

text \<open>
  The \<^verbatim>\<open>switch (agg["type"])\<close> of \<^verbatim>\<open>formatAggregationDescription\<close>; a type it does not
  list falls out of the switch and the arrow function returns \<^verbatim>\<open>undefined\<close>.
\<close>

definition formatAggregationEntry :: "options \<Rightarrow> aggregation_entry \<Rightarrow> js" where
  "formatAggregationEntry opts agg =
     (let arg = js_of_option (ae_arg agg); ty = ae_type agg in
      if ty = ''aggregation'' then Arr [arg]
      else if ty = ''metric'' then Arr [if is_jsx opts then Elem ''MetricClause'' arg else arg]
      else if ty = ''rows'' then Arr [Str ''Raw data'']
      else if ty = ''count'' then Arr [Str ''Count'']
      else if ty = ''cum-count'' then Arr [Str ''Cumulative count'']
      else if ty = ''avg'' then Arr [Str ''Average of '', arg]
      else if ty = ''distinct'' then Arr [Str ''Distinct values of '', arg]
      else if ty = ''stddev'' then Arr [Str ''Standard deviation of '', arg]
      else if ty = ''sum'' then Arr [Str ''Sum of '', arg]
      else if ty = ''cum-sum'' then Arr [Str ''Cumulative sum of '', arg]
      else if ty = ''max'' then Arr [Str ''Maximum of '', arg]
      else if ty = ''min'' then Arr [Str ''Minimum of '', arg]
      else Undefined)"

text \<open>
  \<^verbatim>\<open>
  export function formatAggregationDescription({ aggregation }, options = {}) {
    if (!aggregation || !aggregation.length) { return []; }
    return conjunctList(aggregation.map(agg => { switch (agg["type"]) { ... } }));
  }
  \<close>
  \<^verbatim>\<open>conjunctList\<close> is called without a conjunction here.
\<close>

definition formatAggregationDescription :: "parts \<Rightarrow> options \<Rightarrow> js" where
  "formatAggregationDescription p opts =
     (if p_aggregation p = [] then Arr []
      else conjunctList (map (formatAggregationEntry opts) (p_aggregation p)) Undefined)"

definition formatBreakoutDescription :: "parts \<Rightarrow> options \<Rightarrow> js" where
  "formatBreakoutDescription p opts =
     (if p_breakout p = [] then Arr []
      else Arr [Str ''Grouped by '', Arr (joinList (map Str (p_breakout p)) (Str '' and ''))])"

text \<open>
  \<^verbatim>\<open>
  export function formatFilterDescription({ filter }, options = {}) {
    if (!filter || !filter.length) { return []; }
    return [
      t`Filtered by `,
      joinList(
        filter.map(f => {
          if (f["segment"] != null) {
            return options.jsx ? <FilterClause>{f["segment"]}</FilterClause> : f["segment"];
          } else if (f["field"] != null) {
            return f["field"];
          }
        }),
        ", ",
      ),
    ];
  }
  \<close>
\<close>

definition formatFilterEntry :: "options \<Rightarrow> filter_entry \<Rightarrow> js" where
  "formatFilterEntry opts f =
     (case fe_segment f of
        Some s \<Rightarrow> if is_jsx opts then Elem ''FilterClause'' (Str s) else Str s
      | None \<Rightarrow> (case fe_field f of Some s \<Rightarrow> Str s | None \<Rightarrow> Undefined))"

definition formatFilterDescription :: "parts \<Rightarrow> options \<Rightarrow> js" where
  "formatFilterDescription p opts =
     (if p_filter p = [] then Arr []
      else Arr [Str ''Filtered by '',
                Arr (joinList (map (formatFilterEntry opts) (p_filter p)) (Str '', ''))])"

text \<open>
  \<^verbatim>\<open>
  field => field["field"] + " " + (field["direction"] === "asc" ? "ascending" : "descending")
  \<close>
\<close>

definition formatOrderByDescription :: "parts \<Rightarrow> options \<Rightarrow> js" where
  "formatOrderByDescription p opts =
     (if p_order_by p = [] then Arr []
      else Arr [Str ''Sorted by '',
                Arr (joinList
                       (map (\<lambda>field. Str (to_string (js_of_option (oe_field field)) @ '' '' @
                                (if oe_direction field = ''asc'' then ''ascending''
                                 else ''descending'')))
                            (p_order_by p))
                       (Str '' and ''))])"

definition formatLimitDescription :: "env \<Rightarrow> parts \<Rightarrow> js" where
  "formatLimitDescription e p =
     (case p_limit p of
        None \<Rightarrow> Arr []
      | Some limit \<Rightarrow> Arr [Num limit, Str '' '', Str (inflect e ''row'' limit)])"

fun formatSectionFns :: "section_name \<Rightarrow> env \<Rightarrow> parts \<Rightarrow> options \<Rightarrow> js" where
  "formatSectionFns Table e p opts = formatTableDescription e p"
| "formatSectionFns Aggregation e p opts = formatAggregationDescription p opts"
| "formatSectionFns Breakout e p opts = formatBreakoutDescription p opts"
| "formatSectionFns Filter e p opts = formatFilterDescription p opts"
| "formatSectionFns OrderBy e p opts = formatOrderByDescription p opts"
| "formatSectionFns Limit e p opts = formatLimitDescription e p"

text \<open>
  \<^verbatim>\<open>formatQueryDescription(parts, options)\<close>: the same frame as
  \<^verbatim>\<open>generateQueryDescription\<close>, over the payload.
\<close>

definition formatQueryDescription :: "env \<Rightarrow> parts option \<Rightarrow> options \<Rightarrow> js" where
  "formatQueryDescription e parts0 opts =
     (case parts0 of
        None \<Rightarrow> Str []
      | Some p \<Rightarrow>
          describe_sections (\<lambda>sec. formatSectionFns sec e p opts) (sections_of opts) (is_jsx opts))"

text \<open>
  The display string of one element of a section array, as the final
  \<^verbatim>\<open>_.flatten(...).filter(s => !!s)\<close> and \<^verbatim>\<open>join("")\<close> print it.
\<close>

definition item_text :: "js \<Rightarrow> string" where
  "item_text v = plain_text (Arr [v])"

text \<open>
  The payload entry that carries the same resolved display string as a structured filter
  clause: the segment's name for a segment clause, the resolved field name otherwise.
\<close>

definition described_entry :: "env \<Rightarrow> table_metadata \<Rightarrow> filter_clause \<Rightarrow> filter_entry" where
  "described_entry e md f =
     (case f of
        SegmentF i \<Rightarrow>
          \<lparr>fe_segment = Some (item_text (getFilterClauseDescription e md no_options f)),
           fe_field = None\<rparr>
      | _ \<Rightarrow>
          \<lparr>fe_segment = None,
           fe_field = Some (item_text (getFilterClauseDescription e md no_options f))\<rparr>)"

definition described_parts :: "env \<Rightarrow> table_metadata \<Rightarrow> query \<Rightarrow> parts" where
  "described_parts e md q =
     \<lparr>p_table = md_display_name md,
      p_aggregation = [],
      p_breakout = [],
      p_filter = map (described_entry e md) (getFilters q),
      p_order_by = [],
      p_limit = q_limit q\<rparr>"

section \<open>Drill-down utilities on a structured query\<close>

text \<open>
  Modelled from the spec: the class \<^verbatim>\<open>StructuredQuery\<close> of \<^verbatim>\<open>metabase-lib\<close> is not among
  the sources. A structured query has the clause groups aggregation, breakout, filter,
  order-by and limit; \<^verbatim>\<open>filters()\<close> and \<^verbatim>\<open>breakouts()\<close> list the top-level clauses in
  order, \<^verbatim>\<open>aggregate\<close>, \<^verbatim>\<open>breakout\<close> and \<^verbatim>\<open>filter\<close> append a clause, the
  \<^verbatim>\<open>clear...\<close> methods empty one group, and \<^verbatim>\<open>replace\<close> on a clause puts another one
  "in place (same tree position)". Every method returns a new query.
\<close>

record structured_query =
  sq_aggregations :: "aggregation list"
  sq_breakouts :: "field_ref list"
  sq_filters :: "filter_clause list"
  sq_sorts :: "(string \<times> field_ref) list"
  sq_limit :: "int option"

definition clearAggregations :: "structured_query \<Rightarrow> structured_query" where
  "clearAggregations q = q\<lparr>sq_aggregations := []\<rparr>"

definition clearBreakouts :: "structured_query \<Rightarrow> structured_query" where
  "clearBreakouts q = q\<lparr>sq_breakouts := []\<rparr>"

definition clearSort :: "structured_query \<Rightarrow> structured_query" where
  "clearSort q = q\<lparr>sq_sorts := []\<rparr>"

definition clearLimit :: "structured_query \<Rightarrow> structured_query" where
  "clearLimit q = q\<lparr>sq_limit := None\<rparr>"

definition aggregate :: "structured_query \<Rightarrow> aggregation \<Rightarrow> structured_query" where
  "aggregate q a = q\<lparr>sq_aggregations := sq_aggregations q @ [a]\<rparr>"

definition breakout :: "structured_query \<Rightarrow> field_ref \<Rightarrow> structured_query" where
  "breakout q b = q\<lparr>sq_breakouts := sq_breakouts q @ [b]\<rparr>"

definition add_filter :: "structured_query \<Rightarrow> filter_clause \<Rightarrow> structured_query" where
  "add_filter q f = q\<lparr>sq_filters := sq_filters q @ [f]\<rparr>"

definition replace_filter :: "structured_query \<Rightarrow> nat \<Rightarrow> filter_clause \<Rightarrow> structured_query" where
  "replace_filter q i f = q\<lparr>sq_filters := (sq_filters q)[i := f]\<rparr>"

definition replace_breakout :: "structured_query \<Rightarrow> nat \<Rightarrow> field_ref \<Rightarrow> structured_query" where
  "replace_breakout q i b = q\<lparr>sq_breakouts := (sq_breakouts q)[i := b]\<rparr>"

text \<open>
  Modelled from the spec: \<^verbatim>\<open>Dimension\<close> of \<^verbatim>\<open>metabase-lib\<close> is not among the sources. Two
  clauses target "the same base field/dimension" when their references agree once the
  temporal unit and the binning are taken off. A filter has a dimension when its second
  element is a reference.
\<close>

fun baseDimension :: "field_ref \<Rightarrow> field_ref" where
  "baseDimension (FieldRef i opts) = FieldRef i (opts\<lparr>temporal_unit := None, binning := None\<rparr>)"
| "baseDimension r = r"

definition isSameBaseDimension :: "field_ref \<Rightarrow> field_ref \<Rightarrow> bool" where
  "isSameBaseDimension a b = (baseDimension a = baseDimension b)"

fun filter_dimension :: "filter_clause \<Rightarrow> field_ref option" where
  "filter_dimension (FieldFilter operator (Ref r) operands) = Some r"
| "filter_dimension f = None"

text \<open>
  The test of the loop in \<^verbatim>\<open>addOrUpdateFilter\<close>:
  \<^verbatim>\<open>dimension && dimension.isSameBaseDimension(newFilter[1])\<close>, where \<^verbatim>\<open>newFilter[1]\<close>
  is a dimension only when it is a reference.
\<close>

definition filter_matches :: "filter_clause \<Rightarrow> filter_clause \<Rightarrow> bool" where
  "filter_matches newFilter f =
     (case filter_dimension f of
        None \<Rightarrow> False
      | Some dimension \<Rightarrow>
          (case filter_dimension newFilter of
             None \<Rightarrow> False
           | Some other \<Rightarrow> isSameBaseDimension dimension other))"

text \<open>
  A \<^verbatim>\<open>for (const x of xs) { if (test(x)) return ...; }\<close> loop: the index of the first
  element that passes the test, if any.
\<close>

fun first_index :: "('a \<Rightarrow> bool) \<Rightarrow> 'a list \<Rightarrow> nat option" where
  "first_index test [] = None"
| "first_index test (x # xs) =
     (if test x then Some 0 else map_option Suc (first_index test xs))"

text \<open>
  \<^verbatim>\<open>
  export function addOrUpdateFilter(query, newFilter) {
    // replace existing filter, if it exists
    for (const filter of query.filters()) {
      const dimension = filter.dimension();
      if (dimension && dimension.isSameBaseDimension(newFilter[1])) {
        return filter.replace(newFilter);
      }
    }
    // otherwise add a new filter
    return query.filter(newFilter);
  }
  \<close>
\<close>

definition addOrUpdateFilter :: "structured_query \<Rightarrow> filter_clause \<Rightarrow> structured_query" where
  "addOrUpdateFilter q newFilter =
     (case first_index (filter_matches newFilter) (sq_filters q) of
        Some i \<Rightarrow> replace_filter q i newFilter
      | None \<Rightarrow> add_filter q newFilter)"

text \<open>
  \<^verbatim>\<open>
  export function addOrUpdateBreakout(query, newBreakout) {
    for (const breakout of query.breakouts()) {
      if (breakout.dimension().isSameBaseDimension(newBreakout)) {
        return breakout.replace(newBreakout);
      }
    }
    return query.breakout(newBreakout);
  }
  \<close>
\<close>

definition addOrUpdateBreakout :: "structured_query \<Rightarrow> field_ref \<Rightarrow> structured_query" where
  "addOrUpdateBreakout q newBreakout =
     (case first_index (\<lambda>b. isSameBaseDimension b newBreakout) (sq_breakouts q) of
        Some i \<Rightarrow> replace_breakout q i newBreakout
      | None \<Rightarrow> breakout q newBreakout)"

text \<open>
  A column of a result set. \<^verbatim>\<open>fieldRefForColumn\<close> of \<^verbatim>\<open>metabase-lib\<close> and \<^verbatim>\<open>isDate\<close>,
  \<^verbatim>\<open>isNumber\<close> of \<^verbatim>\<open>metabase/lib/schema_metadata\<close> are not among the sources: the column
  carries their answers.
\<close>

record column =
  col_field_ref :: field_ref
  col_unit :: "string option"
  col_is_date :: bool
  col_is_number :: bool

definition fieldRefForColumn :: "column \<Rightarrow> field_ref" where
  "fieldRefForColumn c = col_field_ref c"

definition isDate :: "column \<Rightarrow> bool" where
  "isDate c = col_is_date c"

definition isNumber :: "column \<Rightarrow> bool" where
  "isNumber c = col_is_number c"

text \<open>
  \<^verbatim>\<open>
  const fieldRefWithTemporalUnit = (mbqlClause, unit) => {
    const dimension = FieldDimension.parseMBQLOrWarn(mbqlClause);
    if (dimension) {
      return dimension.withTemporalUnit(unit).mbql();
    }
    return mbqlClause;
  };
  \<close>
  Only a \<^verbatim>\<open>["field", ...]\<close> clause parses as a field dimension.
\<close>

fun fieldRefWithTemporalUnit :: "field_ref \<Rightarrow> string \<Rightarrow> field_ref" where
  "fieldRefWithTemporalUnit (FieldRef i opts) unit = FieldRef i (opts\<lparr>temporal_unit := Some unit\<rparr>)"
| "fieldRefWithTemporalUnit mbqlClause unit = mbqlClause"

text \<open>
  Modelled from the spec: \<^verbatim>\<open>fieldRefWithOption\<close> of \<^verbatim>\<open>metabase-lib\<close> is not among the
  sources. The breakout of \<^verbatim>\<open>distribution\<close> is the column "auto-bucketed by month if
  temporal, by default-binning if numeric"; a reference that is no field clause is left as
  it is, as \<^verbatim>\<open>fieldRefWithTemporalUnit\<close> above leaves it.
\<close>

datatype field_option = TemporalUnit string | BinningStrategy string

fun fieldRefWithOption :: "field_ref \<Rightarrow> field_option \<Rightarrow> field_ref" where
  "fieldRefWithOption (FieldRef i opts) (TemporalUnit u) = FieldRef i (opts\<lparr>temporal_unit := Some u\<rparr>)"
| "fieldRefWithOption (FieldRef i opts) (BinningStrategy s) = FieldRef i (opts\<lparr>binning := Some s\<rparr>)"
| "fieldRefWithOption r opt = r"

text \<open>
  A question holds a query, structured or native, and a display.
  \<^verbatim>\<open>
  export function distribution(question, column) {
    const query = question.query();
    if (query instanceof StructuredQuery) {
      const breakout = isDate(column)
        ? fieldRefWithOption(fieldRefForColumn(column), "temporal-unit", "month")
        : isNumber(column)
        ? fieldRefWithOption(fieldRefForColumn(column), "binning", { strategy: "default" })
        : fieldRefForColumn(column);
      return query
        .clearAggregations().clearBreakouts().clearSort().clearLimit()
        .aggregate(["count"]).breakout(breakout)
        .question().setDisplay("bar");
    }
  }
  \<close>
  For a native query nothing is returned.
\<close>

datatype question_query = Structured structured_query | Native string

record question =
  qn_query :: question_query
  qn_display :: string

definition distribution :: "question \<Rightarrow> column \<Rightarrow> question option" where
  "distribution qn col =
     (case qn_query qn of
        Structured q \<Rightarrow>
          (let b = (if isDate col
                    then fieldRefWithOption (fieldRefForColumn col) (TemporalUnit ''month'')
                    else if isNumber col
                    then fieldRefWithOption (fieldRefForColumn col) (BinningStrategy ''default'')
                    else fieldRefForColumn col)
           in Some (qn\<lparr>qn_query :=
                      Structured (breakout (aggregate (clearLimit (clearSort (clearBreakouts
                        (clearAggregations q)))) Count) b),
                    qn_display := ''bar''\<rparr>))
      | Native n \<Rightarrow> None)"

section \<open>Choosing the temporal unit of a selected date range\<close>

text \<open>
  \<^verbatim>\<open>
  const MIN_INTERVALS = 4;
  const UNITS = ["minute", "hour", "day", "week", "month", "quarter", "year"];
  const getNextUnit = unit => {
    return UNITS[Math.max(0, UNITS.indexOf(unit) - 1)];
  };
  \<close>
  \<^verbatim>\<open>indexOf\<close> answers -1 for a string that is not in the array.
\<close>

definition MIN_INTERVALS :: int where
  "MIN_INTERVALS = 4"

definition UNITS :: "string list" where
  "UNITS = [''minute'', ''hour'', ''day'', ''week'', ''month'', ''quarter'', ''year'']"

fun indexOf_from :: "'a list \<Rightarrow> 'a \<Rightarrow> int \<Rightarrow> int" where
  "indexOf_from [] x i = - 1"
| "indexOf_from (y # ys) x i = (if y = x then i else indexOf_from ys x (i + 1))"

definition indexOf :: "'a list \<Rightarrow> 'a \<Rightarrow> int" where
  "indexOf xs x = indexOf_from xs x 0"

definition getNextUnit :: "string \<Rightarrow> string" where
  "getNextUnit unit = UNITS ! nat (max 0 (indexOf UNITS unit - 1))"

text \<open>
  The functions of \<^verbatim>\<open>moment\<close> that \<^verbatim>\<open>updateDateTimeFilter\<close> calls, on instants of any
  type \<open>'m\<close>: \<^verbatim>\<open>m.add(n, unit)\<close>, \<^verbatim>\<open>m.startOf(unit)\<close>, \<^verbatim>\<open>m.endOf(unit)\<close>,
  \<^verbatim>\<open>a.diff(b, unit)\<close>, \<^verbatim>\<open>a.isAfter(b)\<close>, \<^verbatim>\<open>a.isSame(b, unit)\<close> and \<^verbatim>\<open>m.format()\<close>.
  The package is not part of this repository; it is a parameter of the model.
\<close>

record 'm moment_lib =
  m_add :: "'m \<Rightarrow> int \<Rightarrow> string \<Rightarrow> 'm"
  m_startOf :: "'m \<Rightarrow> string \<Rightarrow> 'm"
  m_endOf :: "'m \<Rightarrow> string \<Rightarrow> 'm"
  m_diff :: "'m \<Rightarrow> 'm \<Rightarrow> string \<Rightarrow> int"
  m_isAfter :: "'m \<Rightarrow> 'm \<Rightarrow> bool"
  m_isSame :: "'m \<Rightarrow> 'm \<Rightarrow> string \<Rightarrow> bool"
  m_format :: "'m \<Rightarrow> string"

text \<open>
  The loop of \<^verbatim>\<open>updateDateTimeFilter\<close>, where \<open>intervals unit\<close> is
  \<^verbatim>\<open>end.diff(start, unit)\<close> (\<^verbatim>\<open>start\<close> and \<^verbatim>\<open>end\<close> do not change in the loop):
  \<^verbatim>\<open>
  while (unit !== getNextUnit(unit) && end.diff(start, unit) < MIN_INTERVALS) {
    unit = getNextUnit(unit);
  }
  \<close>
\<close>

function unit_loop :: "(string \<Rightarrow> int) \<Rightarrow> string \<Rightarrow> string" where
  "unit_loop intervals unit =
     (if unit \<noteq> getNextUnit unit \<and> intervals unit < MIN_INTERVALS
      then unit_loop intervals (getNextUnit unit)
      else unit)"
  by pat_completeness auto

text \<open>The number of times the body of that loop runs.\<close>

function unit_loop_iterations :: "(string \<Rightarrow> int) \<Rightarrow> string \<Rightarrow> nat" where
  "unit_loop_iterations intervals unit =
     (if unit \<noteq> getNextUnit unit \<and> intervals unit < MIN_INTERVALS
      then Suc (unit_loop_iterations intervals (getNextUnit unit))
      else 0)"
  by pat_completeness auto

text \<open>
  Both terminate: a step goes from a unit of the ladder to the one before it, and from any
  other string to the first unit.
\<close>

definition unit_rank :: "string \<Rightarrow> nat" where
  "unit_rank unit = (if indexOf UNITS unit < 0 then 7 else nat (indexOf UNITS unit))"

lemma indexOf_UNITS:
  "indexOf UNITS unit =
     (if ''minute'' = unit then 0 else if ''hour'' = unit then 1 else if ''day'' = unit then 2
      else if ''week'' = unit then 3 else if ''month'' = unit then 4
      else if ''quarter'' = unit then 5 else if ''year'' = unit then 6 else - 1)"
  unfolding indexOf_def UNITS_def indexOf_from.simps by simp

lemma getNextUnit_ladder:
  "getNextUnit ''minute'' = ''minute''"
  "getNextUnit ''hour'' = ''minute''"
  "getNextUnit ''day'' = ''hour''"
  "getNextUnit ''week'' = ''day''"
  "getNextUnit ''month'' = ''week''"
  "getNextUnit ''quarter'' = ''month''"
  "getNextUnit ''year'' = ''quarter''"
  by (simp_all add: getNextUnit_def indexOf_UNITS) (simp_all add: UNITS_def)

lemma indexOf_other: "unit \<notin> set UNITS \<Longrightarrow> indexOf UNITS unit = - 1"
  unfolding indexOf_UNITS by (auto simp: UNITS_def)

lemma getNextUnit_other: "unit \<notin> set UNITS \<Longrightarrow> getNextUnit unit = ''minute''"
  by (simp add: getNextUnit_def indexOf_other) (simp add: UNITS_def)

lemma unit_rank_ladder:
  "unit_rank ''minute'' = 0" "unit_rank ''hour'' = 1" "unit_rank ''day'' = 2"
  "unit_rank ''week'' = 3" "unit_rank ''month'' = 4" "unit_rank ''quarter'' = 5"
  "unit_rank ''year'' = 6"
  by (simp_all add: unit_rank_def indexOf_UNITS)

lemma unit_rank_other: "unit \<notin> set UNITS \<Longrightarrow> unit_rank unit = 7"
  by (simp add: unit_rank_def indexOf_other)

lemma in_UNITS:
  "unit \<in> set UNITS \<Longrightarrow>
     unit = ''minute'' \<or> unit = ''hour'' \<or> unit = ''day'' \<or> unit = ''week''
     \<or> unit = ''month'' \<or> unit = ''quarter'' \<or> unit = ''year''"
  by (simp add: UNITS_def)

lemma getNextUnit_rank:
  "unit \<noteq> getNextUnit unit \<Longrightarrow> unit_rank (getNextUnit unit) < unit_rank unit"
proof (cases "unit \<in> set UNITS")
  case True
  assume ne: "unit \<noteq> getNextUnit unit"
  from in_UNITS [OF True] show ?thesis
  proof (elim disjE)
    assume "unit = ''minute''" with ne show ?thesis by (simp add: getNextUnit_ladder)
  next
    assume "unit = ''hour''" then show ?thesis by (simp add: getNextUnit_ladder unit_rank_ladder)
  next
    assume "unit = ''day''" then show ?thesis by (simp add: getNextUnit_ladder unit_rank_ladder)
  next
    assume "unit = ''week''" then show ?thesis by (simp add: getNextUnit_ladder unit_rank_ladder)
  next
    assume "unit = ''month''" then show ?thesis by (simp add: getNextUnit_ladder unit_rank_ladder)
  next
    assume "unit = ''quarter''" then show ?thesis
      by (simp add: getNextUnit_ladder unit_rank_ladder)
  next
    assume "unit = ''year''" then show ?thesis by (simp add: getNextUnit_ladder unit_rank_ladder)
  qed
next
  case False
  then show ?thesis by (simp add: getNextUnit_other unit_rank_other unit_rank_ladder)
qed

termination unit_loop
  by (relation "measure (\<lambda>(intervals, unit). unit_rank unit)") (simp_all add: getNextUnit_rank)

termination unit_loop_iterations
  by (relation "measure (\<lambda>(intervals, unit). unit_rank unit)") (simp_all add: getNextUnit_rank)

declare unit_loop.simps [simp del]

declare unit_loop_iterations.simps [simp del]

text \<open>
  \<^verbatim>\<open>
  export function updateDateTimeFilter(query, column, start, end) {
    const fieldRef = fieldRefForColumn(column);
    start = moment(start);
    end = moment(end);
    if (column.unit) {
      // start with the existing breakout unit
      let unit = column.unit;
      // clamp range to unit to ensure we select exactly what's represented by the dots/bars
      start = start.add(1, unit).startOf(unit);
      end = end.endOf(unit);
      // find the largest unit with at least MIN_INTERVALS
      while (unit !== getNextUnit(unit) && end.diff(start, unit) < MIN_INTERVALS) {
        unit = getNextUnit(unit);
      }
      // update the breakout
      query = addOrUpdateBreakout(query, fieldRefWithTemporalUnit(fieldRef, unit));
      // round to start of the original unit
      start = start.startOf(column.unit);
      end = end.startOf(column.unit);
      if (start.isAfter(end)) {
        return query;
      }
      if (start.isSame(end, column.unit)) {
        return addOrUpdateFilter(query,
          ["=", fieldRefWithTemporalUnit(fieldRef, column.unit), start.format()]);
      } else {
        return addOrUpdateFilter(query,
          ["between", fieldRefWithTemporalUnit(fieldRef, column.unit),
           start.format(), end.format()]);
      }
    } else {
      return addOrUpdateFilter(query, ["between", fieldRef, start.format(), end.format()]);
    }
  }
  \<close>
  \<open>start0\<close> and \<open>end0\<close> are the instants \<^verbatim>\<open>moment(start)\<close> and \<^verbatim>\<open>moment(end)\<close>;
  \<open>range_intervals\<close> is \<^verbatim>\<open>end.diff(start, unit)\<close> on the clamped range,
  \<open>selected_unit\<close> is the unit the loop ends with, \<open>column_unit\<close> the unit of the column
  when \<^verbatim>\<open>column.unit\<close> is truthy.
\<close>

definition column_unit :: "column \<Rightarrow> string option" where
  "column_unit col = (case col_unit col of Some u \<Rightarrow> if u \<noteq> [] then Some u else None | None \<Rightarrow> None)"

definition clamp_start :: "'m moment_lib \<Rightarrow> string \<Rightarrow> 'm \<Rightarrow> 'm" where
  "clamp_start M unit start0 = m_startOf M (m_add M start0 1 unit) unit"

definition clamp_end :: "'m moment_lib \<Rightarrow> string \<Rightarrow> 'm \<Rightarrow> 'm" where
  "clamp_end M unit end0 = m_endOf M end0 unit"

definition range_intervals :: "'m moment_lib \<Rightarrow> string \<Rightarrow> 'm \<Rightarrow> 'm \<Rightarrow> string \<Rightarrow> int" where
  "range_intervals M unit start0 end0 u =
     m_diff M (clamp_end M unit end0) (clamp_start M unit start0) u"

definition selected_unit :: "'m moment_lib \<Rightarrow> string \<Rightarrow> 'm \<Rightarrow> 'm \<Rightarrow> string" where
  "selected_unit M unit start0 end0 = unit_loop (range_intervals M unit start0 end0) unit"

definition updateDateTimeFilter ::
  "'m moment_lib \<Rightarrow> structured_query \<Rightarrow> column \<Rightarrow> 'm \<Rightarrow> 'm \<Rightarrow> structured_query" where
  "updateDateTimeFilter M query0 col start0 end0 =
     (let fieldRef = fieldRefForColumn col in
      case column_unit col of
        Some cu \<Rightarrow>
          (let start1 = clamp_start M cu start0;
               end1 = clamp_end M cu end0;
               unit = selected_unit M cu start0 end0;
               query1 = addOrUpdateBreakout query0 (fieldRefWithTemporalUnit fieldRef unit);
               start2 = m_startOf M start1 cu;
               end2 = m_startOf M end1 cu
           in if m_isAfter M start2 end2 then query1
              else if m_isSame M start2 end2 cu then
                addOrUpdateFilter query1
                  (FieldFilter ''='' (Ref (fieldRefWithTemporalUnit fieldRef cu))
                     [LStr (m_format M start2)])
              else
                addOrUpdateFilter query1
                  (FieldFilter ''between'' (Ref (fieldRefWithTemporalUnit fieldRef cu))
                     [LStr (m_format M start2), LStr (m_format M end2)]))
      | None \<Rightarrow>
          addOrUpdateFilter query0
            (FieldFilter ''between'' (Ref fieldRef) [LStr (m_format M start0), LStr (m_format M end0)]))"

section \<open>A concrete clock\<close>

text \<open>
  To run \<^verbatim>\<open>updateDateTimeFilter\<close> on examples, the functions of \<^verbatim>\<open>moment\<close> are
  instantiated for a browser in the UTC time zone with the default locale: an instant is a
  number of milliseconds since 1970-01-01T00:00:00Z, the week starts on Sunday, and the
  seven units of the ladder are known by the names of \<open>UNITS\<close>. Any other unit name is
  treated as \<^verbatim>\<open>moment\<close> treats a unit it does not know: \<^verbatim>\<open>add\<close>, \<^verbatim>\<open>startOf\<close> and
  \<^verbatim>\<open>endOf\<close> leave the instant as it is, \<^verbatim>\<open>diff\<close> answers in milliseconds and
  \<^verbatim>\<open>isSame\<close> compares the instants.
\<close>

definition ms_per_day :: int where
  "ms_per_day = 86400000"

text \<open>Days since the epoch to year, month and day of the proleptic Gregorian calendar, and back.\<close>

definition civil_from_days :: "int \<Rightarrow> int \<times> int \<times> int" where
  "civil_from_days z0 =
     (let z = z0 + 719468;
          era = z div 146097;
          doe = z - era * 146097;
          yoe = (doe - doe div 1460 + doe div 36524 - doe div 146096) div 365;
          doy = doe - (365 * yoe + yoe div 4 - yoe div 100);
          mp = (5 * doy + 2) div 153;
          d = doy - (153 * mp + 2) div 5 + 1;
          m = (if mp < 10 then mp + 3 else mp - 9);
          y = yoe + era * 400 + (if m \<le> 2 then 1 else 0)
      in (y, m, d))"

definition days_from_civil :: "int \<Rightarrow> int \<Rightarrow> int \<Rightarrow> int" where
  "days_from_civil y0 m d =
     (let y = (if m \<le> 2 then y0 - 1 else y0);
          era = y div 400;
          yoe = y - era * 400;
          mp = (m + 9) mod 12;
          doy = (153 * mp + 2) div 5 + d - 1;
          doe = yoe * 365 + yoe div 4 - yoe div 100 + doy
      in era * 146097 + doe - 719468)"

definition days_in_month :: "int \<Rightarrow> int \<Rightarrow> int" where
  "days_in_month y m =
     (if m = 12 then 31 else days_from_civil y (m + 1) 1 - days_from_civil y m 1)"

text \<open>\<^verbatim>\<open>add(n, "months")\<close>: the day of the month is cut to the length of the new month.\<close>

definition add_months :: "int \<Rightarrow> int \<Rightarrow> int" where
  "add_months t n =
     (let (y, m, d) = civil_from_days (t div ms_per_day);
          k = y * 12 + (m - 1) + n;
          y' = k div 12;
          m' = k mod 12 + 1;
          d' = min d (days_in_month y' m')
      in days_from_civil y' m' d' * ms_per_day + t mod ms_per_day)"

definition utc_add :: "int \<Rightarrow> int \<Rightarrow> string \<Rightarrow> int" where
  "utc_add t n unit =
     (if unit = ''minute'' then t + n * 60000
      else if unit = ''hour'' then t + n * 3600000
      else if unit = ''day'' then t + n * ms_per_day
      else if unit = ''week'' then t + n * 7 * ms_per_day
      else if unit = ''month'' then add_months t n
      else if unit = ''quarter'' then add_months t (3 * n)
      else if unit = ''year'' then add_months t (12 * n)
      else t)"

definition utc_startOf :: "int \<Rightarrow> string \<Rightarrow> int" where
  "utc_startOf t unit =
     (if unit = ''minute'' then t - t mod 60000
      else if unit = ''hour'' then t - t mod 3600000
      else if unit = ''day'' then t - t mod ms_per_day
      else if unit = ''week'' then
        t - t mod ms_per_day - ((t div ms_per_day + 4) mod 7) * ms_per_day
      else if unit = ''month'' then
        (let (y, m, d) = civil_from_days (t div ms_per_day)
         in days_from_civil y m 1 * ms_per_day)
      else if unit = ''quarter'' then
        (let (y, m, d) = civil_from_days (t div ms_per_day)
         in days_from_civil y (m - (m - 1) mod 3) 1 * ms_per_day)
      else if unit = ''year'' then
        (let (y, m, d) = civil_from_days (t div ms_per_day)
         in days_from_civil y 1 1 * ms_per_day)
      else t)"

definition utc_endOf :: "int \<Rightarrow> string \<Rightarrow> int" where
  "utc_endOf t unit =
     (if unit \<in> set UNITS then utc_add (utc_startOf t unit) 1 unit - 1 else t)"

text \<open>Division that cuts towards zero, as \<^verbatim>\<open>diff\<close> rounds.\<close>

definition trunc_div :: "int \<Rightarrow> int \<Rightarrow> int" where
  "trunc_div a b = (if 0 \<le> a then a div b else - ((- a) div b))"

text \<open>
  \<^verbatim>\<open>monthDiff(a, b)\<close> of \<^verbatim>\<open>moment\<close> as a fraction: the whole months between the two
  instants and the part of the month left over, negated.
\<close>

definition month_diff_anchored :: "int \<Rightarrow> int \<Rightarrow> int \<times> int" where
  "month_diff_anchored a b =
     (let (ya, ma, da) = civil_from_days (a div ms_per_day);
          (yb, mb, db) = civil_from_days (b div ms_per_day);
          whole = (yb - ya) * 12 + (mb - ma);
          anchor = add_months a whole;
          span = (if b - anchor < 0 then anchor - add_months a (whole - 1)
                  else add_months a (whole + 1) - anchor)
      in (- (whole * span + (b - anchor)), span))"

definition month_diff :: "int \<Rightarrow> int \<Rightarrow> int \<times> int" where
  "month_diff a b =
     (let (ya, ma, da) = civil_from_days (a div ms_per_day);
          (yb, mb, db) = civil_from_days (b div ms_per_day)
      in if da < db then (let (n, d) = month_diff_anchored b a in (- n, d))
         else month_diff_anchored a b)"

definition utc_diff :: "int \<Rightarrow> int \<Rightarrow> string \<Rightarrow> int" where
  "utc_diff a b unit =
     (if unit = ''minute'' then trunc_div (a - b) 60000
      else if unit = ''hour'' then trunc_div (a - b) 3600000
      else if unit = ''day'' then trunc_div (a - b) ms_per_day
      else if unit = ''week'' then trunc_div (a - b) (7 * ms_per_day)
      else if unit = ''month'' then (let (n, d) = month_diff a b in trunc_div n d)
      else if unit = ''quarter'' then (let (n, d) = month_diff a b in trunc_div n (3 * d))
      else if unit = ''year'' then (let (n, d) = month_diff a b in trunc_div n (12 * d))
      else a - b)"

definition utc_isSame :: "int \<Rightarrow> int \<Rightarrow> string \<Rightarrow> bool" where
  "utc_isSame a b unit = (utc_startOf a unit \<le> b \<and> b \<le> utc_endOf a unit)"

text \<open>\<^verbatim>\<open>format()\<close>: \<^verbatim>\<open>YYYY-MM-DDTHH:mm:ssZ\<close>, with the offset \<^verbatim>\<open>+00:00\<close>.\<close>

definition pad2 :: "int \<Rightarrow> string" where
  "pad2 n = (if n < 10 then ''0'' else []) @ string_of_int n"

definition year_string :: "int \<Rightarrow> string" where
  "year_string y =
     (if 9999 < y then ''+'' @ string_of_int y
      else (if y < 0 then ''-'' else [])
           @ replicate (4 - length (string_of_int (abs y))) CHR ''0'' @ string_of_int (abs y))"

definition utc_format :: "int \<Rightarrow> string" where
  "utc_format t =
     (let (y, m, d) = civil_from_days (t div ms_per_day);
          ms = t mod ms_per_day
      in year_string y @ ''-'' @ pad2 m @ ''-'' @ pad2 d @ ''T'' @ pad2 (ms div 3600000) @ '':''
         @ pad2 (ms mod 3600000 div 60000) @ '':'' @ pad2 (ms mod 60000 div 1000) @ ''+00:00'')"

definition utc_moment :: "int moment_lib" where
  "utc_moment =
     \<lparr>m_add = utc_add,
      m_startOf = utc_startOf,
      m_endOf = utc_endOf,
      m_diff = utc_diff,
      m_isAfter = (\<lambda>a b. b < a),
      m_isSame = utc_isSame,
      m_format = utc_format\<rparr>"

text \<open>A column on the field 1 bucketed by day, and a query that breaks out by it.\<close>

definition day_field :: field_ref where
  "day_field = FieldRef 1 \<lparr>temporal_unit = Some ''day'', binning = None, source_field = None\<rparr>"

definition day_column :: column where
  "day_column =
     \<lparr>col_field_ref = plain_field 1, col_unit = Some ''day'', col_is_date = True,
      col_is_number = False\<rparr>"

definition daily_query :: structured_query where
  "daily_query =
     \<lparr>sq_aggregations = [Count], sq_breakouts = [day_field], sq_filters = [], sq_sorts = [],
      sq_limit = None\<rparr>"

section \<open>Plain text of nested arrays\<close>

definition elem_text :: "js \<Rightarrow> string" where
  "elem_text x = (if x = Null \<or> x = Undefined then [] else to_string x)"

fun is_array :: "js \<Rightarrow> bool" where
  "is_array (Arr xs) = True"
| "is_array v = False"

lemma join_strings_nil: "join_strings [] ss = concat ss"
  by (induction "[]::string" ss rule: join_strings.induct) simp_all

lemma js_join_nil: "js_join [] xs = concat (map elem_text xs)"
  unfolding js_join_def join_strings_nil elem_text_def by simp


lemma js_join_append: "js_join [] (xs @ ys) = js_join [] xs @ js_join [] ys"
  unfolding js_join_nil by simp

lemma flatten_Arr: "flatten (Arr xs) = concat (map flatten_element xs)"
  by (simp add: flatten_def)

lemma section_parts_Arr:
  "section_parts (Arr xs) = concat (map (\<lambda>x. filter truthy (flatten_element x)) xs)"
  unfolding section_parts_def flatten_Arr by (induction xs) simp_all

lemma item_text_eq: "item_text v = js_join [] (filter truthy (flatten_element v))"
  unfolding item_text_def plain_text_def section_parts_Arr by simp

lemma plain_text_Arr: "plain_text (Arr xs) = concat (map item_text xs)"
  unfolding plain_text_def section_parts_Arr
  by (induction xs) (simp_all add: js_join_append item_text_eq, simp add: js_join_nil)

lemma item_text_Arr: "item_text (Arr xs) = concat (map item_text xs)"
proof -
  have "item_text (Arr xs) = plain_text (Arr xs)"
    unfolding item_text_eq plain_text_def section_parts_def flatten_Arr by simp
  then show ?thesis by (simp add: plain_text_Arr)
qed

lemma item_text_Str: "item_text (Str s) = s"
  unfolding item_text_eq js_join_nil by (simp add: elem_text_def)

lemma item_text_Null: "item_text Null = []"
  unfolding item_text_eq js_join_nil by simp

lemma item_text_Undefined: "item_text Undefined = []"
  unfolding item_text_eq js_join_nil by simp

lemma item_text_Num: "item_text (Num n) = (if n = 0 then [] else string_of_int n)"
  unfolding item_text_eq js_join_nil by (simp add: elem_text_def)

lemma item_text_Elem: "item_text (Elem t c) = ''[object Object]''"
  unfolding item_text_eq js_join_nil by (simp add: elem_text_def)

lemmas item_text_simps =
  item_text_Arr item_text_Str item_text_Null item_text_Undefined item_text_Num item_text_Elem



lemma plain_text_Undefined: "plain_text Undefined = []"
  by (simp add: plain_text_def section_parts_def js_join_def flatten_def)

lemma flatten_element_flat: "x \<in> set (flatten_element v) \<Longrightarrow> \<not> is_array x"
  by (induction v arbitrary: x rule: flatten_element.induct) auto

lemma flatten_flat: "x \<in> set (flatten v) \<Longrightarrow> \<not> is_array x"
  by (cases v) (auto simp: flatten_def dest: flatten_element_flat)

lemma flatten_element_atom: "\<not> is_array v \<Longrightarrow> flatten_element v = [v]"
  by (cases v) simp_all

lemma flat_list:
  "(\<And>x. x \<in> set xs \<Longrightarrow> \<not> is_array x) \<Longrightarrow> concat (map flatten_element xs) = xs"
  by (induction xs) (simp_all add: flatten_element_atom)

lemma string_of_nat_nonempty: "string_of_nat n \<noteq> []"
  by (subst string_of_nat.simps) simp

lemma truthy_text: "truthy x \<Longrightarrow> \<not> is_array x \<Longrightarrow> elem_text x \<noteq> []"
  by (cases x) (simp_all add: elem_text_def string_of_int_def string_of_nat_nonempty)

lemma parts_text_nonempty:
  "ps \<noteq> [] \<Longrightarrow> (\<And>x. x \<in> set ps \<Longrightarrow> truthy x \<and> \<not> is_array x) \<Longrightarrow> js_join [] ps \<noteq> []"
  unfolding js_join_nil by (cases ps) (simp_all add: truthy_text)

lemma section_parts_atoms: "x \<in> set (section_parts v) \<Longrightarrow> truthy x \<and> \<not> is_array x"
  unfolding section_parts_def by (auto dest: flatten_flat)

lemma section_parts_empty_iff: "section_parts v = [] \<longleftrightarrow> plain_text v = []"
proof
  assume "section_parts v = []"
  then show "plain_text v = []" by (simp add: plain_text_def js_join_def)
next
  assume a: "plain_text v = []"
  show "section_parts v = []"
  proof (rule ccontr)
    assume "section_parts v \<noteq> []"
    then have "js_join [] (section_parts v) \<noteq> []"
      by (rule parts_text_nonempty) (rule section_parts_atoms)
    with a show False by (simp add: plain_text_def)
  qed
qed

lemma joined_sections_text:
  "\<forall>p\<in>set ps. \<forall>x\<in>set p. \<not> is_array x \<Longrightarrow>
   js_join [] (concat (map flatten_element (joinList (map Arr ps) (Str sep)))) =
     join_strings sep (map (js_join []) ps)"
proof (induction ps rule: induct_list012)
  case 1
  then show ?case by (simp add: js_join_def)
next
  case (2 p)
  then have "concat (map flatten_element p) = p" by (intro flat_list) auto
  then show ?case by simp
next
  case (3 p q ps)
  have p: "concat (map flatten_element p) = p" using 3(3) by (intro flat_list) auto
  have "js_join [] (concat (map flatten_element (joinList (map Arr (q # ps)) (Str sep)))) =
      join_strings sep (map (js_join []) (q # ps))"
    using 3(3) by (intro 3(2)) simp
  then show ?case using p by (simp add: js_join_append) (simp add: js_join_nil elem_text_def)
qed

lemma describe_sections_plain:
  "describe_sections fns secs False =
     Str (join_strings '', '' (filter (\<lambda>s. s \<noteq> []) (map (\<lambda>sec. plain_text (fns sec)) secs)))"
proof -
  let ?parts = "filter (\<lambda>s. s \<noteq> []) (map (\<lambda>sec. section_parts (fns sec)) secs)"
  have flat: "\<forall>p\<in>set ?parts. \<forall>x\<in>set p. \<not> is_array x"
    by (auto dest: section_parts_atoms)
  have "map (js_join []) ?parts = filter (\<lambda>s. s \<noteq> []) (map (\<lambda>sec. plain_text (fns sec)) secs)"
    by (induction secs) (simp_all add: section_parts_empty_iff, simp_all add: plain_text_def)
  then show ?thesis
    using joined_sections_text [of ?parts "'', ''", OF flat]
    by (simp add: describe_sections_def flatten_Arr Let_def)
qed

lemma joinList_text:
  "concat (map item_text (joinList xs (Str sep))) = join_strings sep (map item_text xs)"
  by (induction xs "Str sep" rule: joinList.induct) (simp_all add: item_text_Str)

lemma generateQueryDescription_plain:
  "\<not> is_jsx opts \<Longrightarrow>
   generateQueryDescription e (Some md) q opts =
     Str (join_strings '', ''
            (filter (\<lambda>s. s \<noteq> [])
               (map (\<lambda>sec. plain_text (sectionFns sec e md q opts)) (sections_of opts))))"
  by (simp add: generateQueryDescription_def describe_sections_plain)

section \<open>The conjunction of a list\<close>



section \<open>The description of a query, end to end\<close>

text \<open>The numeral of the limit 10, and the name of a field reached without a join path.\<close>

lemma string_of_10: "string_of_int 10 = ''10''"
  by code_simp

lemma getFieldName_simple:
  "getFieldTarget e f md = Inr tgt \<Longrightarrow> t_path tgt = Some [] \<Longrightarrow> t_unit tgt = None \<Longrightarrow>
   getFieldName e md f = Arr [formatField e (t_field tgt)]"
  by (simp add: getFieldName_def)

text \<open>
  C3, as the code has it. For the query
  \<^verbatim>\<open>{aggregation: [["count"]], breakout: [fieldA], filter: ["and", ["=", fieldB, 5]], limit: 10}\<close>
  against metadata that names the table "Orders", \<open>fieldA\<close> "Created At" and \<open>fieldB\<close>
  "Status", \<^verbatim>\<open>generateQueryDescription\<close> in plain-string mode with the default sections
  returns "Orders, Count, Grouped by Created At, Filtered by Status, 10 rows": a filter clause
  is described by the name of its field alone, without operator and value.
\<close>

theorem orders_description:
  assumes "md_display_name md = ''Orders''"
    and "pluralize e ''Orders'' = ''Orders''"
    and "inflect e ''row'' 10 = ''rows''"
    and "getFieldTarget e (Ref fieldA) md = Inr tA" "t_path tA = Some []" "t_unit tA = None"
    and "formatField e (t_field tA) = Str ''Created At''"
    and "getFieldTarget e (Ref fieldB) md = Inr tB" "t_path tB = Some []" "t_unit tB = None"
    and "formatField e (t_field tB) = Str ''Status''"
  shows "generateQueryDescription e (Some md)
           \<lparr>q_aggregation = [Count], q_breakout = [fieldA],
            q_filter = Some (AndF [FieldFilter ''='' (Ref fieldB) [LNum 5]]),
            q_order_by = [], q_limit = Some 10\<rparr> no_options =
         Str ''Orders, Count, Grouped by Created At, Filtered by Status, 10 rows''"
proof -
  have a: "getFieldName e md (Ref fieldA) = Arr [Str ''Created At'']"
    using assms by (simp add: getFieldName_simple)
  have b: "getFieldName e md (Ref fieldB) = Arr [Str ''Status'']"
    using assms by (simp add: getFieldName_simple)
  have j: "\<not> is_jsx no_options" by (simp add: is_jsx_def no_options_def)
  show ?thesis
    unfolding generateQueryDescription_plain [OF j]
    using assms(1-3) a b
    by (simp add: sections_of_def no_options_def default_sections_def getTableDescription_def
        getAggregationDescription_def getAggregations_def describeAggregation_def
        getBreakoutDescription_def getFilterDescription_def getFilters_def
        getOrderByDescription_def getLimitDescription_def plain_text_Arr plain_text_Undefined
        item_text_simps string_of_10)
qed

text \<open>
  The hypotheses hold in the concrete environment, where the description is computed.
\<close>

theorem orders_description_witness:
  "generateQueryDescription sample_env (Some orders_metadata) orders_query no_options =
     Str ''Orders, Count, Grouped by Created At, Filtered by Status, 10 rows''"
proof -
  let ?tA = "\<lparr>t_path = Some [],
               t_field = Some \<lparr>fd_display_name = Some ''Created At'',
                               fd_name = Some ''CREATED_AT''\<rparr>,
               t_unit = None\<rparr>"
  let ?tB = "\<lparr>t_path = Some [],
               t_field = Some \<lparr>fd_display_name = Some ''Status'', fd_name = Some ''STATUS''\<rparr>,
               t_unit = None\<rparr>"
  have h1: "md_display_name orders_metadata = ''Orders''"
    by (simp add: orders_metadata_def)
  have h2: "pluralize sample_env ''Orders'' = ''Orders''"
    by (simp add: sample_env_def sample_pluralize_def)
  have h3: "inflect sample_env ''row'' 10 = ''rows''"
    by (simp add: sample_env_def sample_inflect_def sample_pluralize_def)
  have h4: "getFieldTarget sample_env (Ref (plain_field 1)) orders_metadata = Inr ?tA"
    by (simp add: sample_env_def plain_field_def orders_metadata_def)
  have h5: "formatField sample_env (t_field ?tA) = Str ''Created At''"
    by (simp add: sample_env_def formatField_def js_or_def js_of_option_def)
  have h6: "getFieldTarget sample_env (Ref (plain_field 2)) orders_metadata = Inr ?tB"
    by (simp add: sample_env_def plain_field_def orders_metadata_def)
  have h7: "formatField sample_env (t_field ?tB) = Str ''Status''"
    by (simp add: sample_env_def formatField_def js_or_def js_of_option_def)
  show ?thesis
    using orders_description [OF h1 h2 h3 h4 _ _ h5 h6 _ _ h7]
    by (simp add: orders_query_def)
qed

text \<open>
  The description is not the string of the claim, which has "Status is 5".
\<close>

theorem orders_description_counterexample:
  "generateQueryDescription sample_env (Some orders_metadata) orders_query no_options \<noteq>
     Str ''Orders, Count, Grouped by Created At, Filtered by Status is 5, 10 rows''"
  by code_simp


section \<open>The limit section\<close>

text \<open>
  The limit section is \<^verbatim>\<open>[limit, " ", inflect("row", limit)]\<close>, and the filter
  \<^verbatim>\<open>s => !!s\<close> that drops empty parts drops the number 0 as well.
\<close>

lemma limit_text:
  "plain_text (getLimitDescription e md (q\<lparr>q_limit := Some n\<rparr>)) =
     (if n = 0 then [] else string_of_int n) @ '' '' @ inflect e ''row'' n"
  by (simp add: getLimitDescription_def plain_text_Arr item_text_simps)

lemma limit_description_nonzero:
  "n \<noteq> 0 \<Longrightarrow>
   generateQueryDescription e (Some md) (q\<lparr>q_limit := Some n\<rparr>) \<lparr>jsx = None, sections = Some [Limit]\<rparr> =
     Str (string_of_int n @ '' '' @ inflect e ''row'' n)"
  by (subst generateQueryDescription_plain)
     (simp_all add: is_jsx_def sections_of_def getLimitDescription_def plain_text_Arr
        item_text_simps)

text \<open>
  C9 at the limit 0. The limit section alone, for a query whose limit is 0, is a space
  followed by the unit word: the numeral is missing, where the claim has "0 rows".
\<close>

theorem limit_zero_description:
  "generateQueryDescription e (Some md) (q\<lparr>q_limit := Some 0\<rparr>)
     \<lparr>jsx = None, sections = Some [Limit]\<rparr> = Str ('' '' @ inflect e ''row'' 0)"
  by (subst generateQueryDescription_plain)
     (simp_all add: is_jsx_def sections_of_def getLimitDescription_def plain_text_Arr
        item_text_simps)

text \<open>
  In the concrete environment the description of the orders query with limit 0 ends in
  ",  rows".
\<close>

lemma limit_zero_example:
  "generateQueryDescription sample_env (Some orders_metadata) (orders_query\<lparr>q_limit := Some 0\<rparr>)
     no_options = Str ''Orders, Count, Grouped by Created At, Filtered by Status,  rows''"
  by code_simp

section \<open>References that do not resolve\<close>

text \<open>The texts of a breakout list, and of lists of two aggregations or two filters.\<close>

lemma breakout_text:
  "q_breakout q \<noteq> [] \<Longrightarrow>
   plain_text (getBreakoutDescription e md q opts) =
     ''Grouped by '' @ join_strings '' and '' (map (\<lambda>b. item_text (getFieldName e md (Ref b))) (q_breakout q))"
  by (simp add: getBreakoutDescription_def plain_text_Arr item_text_simps joinList_text comp_def)

lemma two_aggregations_text:
  "getAggregations q = [a, b] \<Longrightarrow>
   plain_text (getAggregationDescription e md q opts) =
     item_text (describeAggregation e md opts a) @ '' and '' @ item_text (describeAggregation e md opts b)"
  by (simp add: getAggregationDescription_def plain_text_Arr item_text_simps)

lemma two_filters_text:
  "getFilters q = [f, g] \<Longrightarrow>
   plain_text (getFilterDescription e md q opts) =
     ''Filtered by '' @ item_text (getFilterClauseDescription e md opts f) @ '' and ''
       @ item_text (getFilterClauseDescription e md opts g)"
  by (simp add: getFilterDescription_def plain_text_Arr item_text_simps)

text \<open>
  What the code does for a reference that does not resolve. When the resolver fails for a
  field reference, \<^verbatim>\<open>getFieldName\<close> answers "[Unknown Field]"; a metric id that the
  metadata does not list is described as "[Unknown Metric]" and a segment id that it does
  not list as "[Unknown Segment]" (wrapped in their element in jsx mode). In plain-string
  mode the description is always the string made of the texts of all requested sections
  that are not empty, joined with ", ", and next to a placeholder the other clause of an
  aggregation, filter or breakout list of two is rendered in full.
\<close>

lemma unknown_references_placeholders:
  "(getFieldTarget e f md = Inl err \<longrightarrow> getFieldName e md f = Str ''[Unknown Field]'')
   \<and> (findMetric (md_metrics md) i = None \<longrightarrow>
        describeAggregation e md opts (Metric i) =
          Arr [if is_jsx opts then Elem ''MetricClause'' (Str ''[Unknown Metric]'')
               else Str ''[Unknown Metric]''])
   \<and> (findSegment (md_segments md) j = None \<longrightarrow>
        getFilterClauseDescription e md opts (SegmentF j) =
          (if is_jsx opts then Elem ''FilterClause'' (Str ''[Unknown Segment]'')
           else Str ''[Unknown Segment]''))
   \<and> (\<not> is_jsx opts \<longrightarrow>
        generateQueryDescription e (Some md) q opts =
          Str (join_strings '', ''
                 (filter (\<lambda>s. s \<noteq> [])
                    (map (\<lambda>sec. plain_text (sectionFns sec e md q opts)) (sections_of opts)))))
   \<and> (\<not> is_jsx opts \<and> findMetric (md_metrics md) i = None \<and> getAggregations q = [Metric i, a] \<longrightarrow>
        plain_text (getAggregationDescription e md q opts) =
          ''[Unknown Metric] and '' @ item_text (describeAggregation e md opts a))
   \<and> (\<not> is_jsx opts \<and> findSegment (md_segments md) j = None \<and> getFilters q = [SegmentF j, g] \<longrightarrow>
        plain_text (getFilterDescription e md q opts) =
          ''Filtered by [Unknown Segment] and '' @ item_text (getFilterClauseDescription e md opts g))
   \<and> (getFieldTarget e (Ref b) md = Inl err \<and> q_breakout q = [b, c] \<longrightarrow>
        plain_text (getBreakoutDescription e md q opts) =
          ''Grouped by [Unknown Field] and '' @ item_text (getFieldName e md (Ref c)))"
proof -
  have field: "getFieldName e md x = Str ''[Unknown Field]''" if "getFieldTarget e x md = Inl err" for x
    using that by (simp add: getFieldName_def)
  have metric: "describeAggregation e md opts (Metric i) =
          Arr [if is_jsx opts then Elem ''MetricClause'' (Str ''[Unknown Metric]'')
               else Str ''[Unknown Metric]'']" if "findMetric (md_metrics md) i = None"
    using that by (simp add: describeAggregation_def)
  have seg: "getFilterClauseDescription e md opts (SegmentF j) =
          (if is_jsx opts then Elem ''FilterClause'' (Str ''[Unknown Segment]'')
           else Str ''[Unknown Segment]'')" if "findSegment (md_segments md) j = None"
    using that by simp
  have aggs: "plain_text (getAggregationDescription e md q opts) =
          ''[Unknown Metric] and '' @ item_text (describeAggregation e md opts a)"
    if "\<not> is_jsx opts" "findMetric (md_metrics md) i = None" "getAggregations q = [Metric i, a]"
    using that metric by (simp add: two_aggregations_text item_text_simps)
  have filters: "plain_text (getFilterDescription e md q opts) =
          ''Filtered by [Unknown Segment] and '' @ item_text (getFilterClauseDescription e md opts g)"
    if "\<not> is_jsx opts" "findSegment (md_segments md) j = None" "getFilters q = [SegmentF j, g]"
    using that seg by (simp add: two_filters_text item_text_simps)
  have breakouts: "plain_text (getBreakoutDescription e md q opts) =
          ''Grouped by [Unknown Field] and '' @ item_text (getFieldName e md (Ref c))"
    if "getFieldTarget e (Ref b) md = Inl err" "q_breakout q = [b, c]"
    using that field [of "Ref b"] by (simp add: breakout_text item_text_simps)
  show ?thesis
    using field [of f] metric seg aggs filters breakouts
    by (simp add: generateQueryDescription_plain)
qed

text \<open>
  A query with a metric, a segment and a field that the metadata does not know, next to
  clauses that it knows.
\<close>

definition mixed_query :: query where
  "mixed_query =
     \<lparr>q_aggregation = [Metric 7, Avg (Ref (plain_field 9))],
      q_breakout = [plain_field 1, plain_field 9],
      q_filter = Some (AndF [SegmentF 3, FieldFilter ''='' (Ref (plain_field 2)) [LNum 5]]),
      q_order_by = [(''asc'', plain_field 9), (''desc'', plain_field 1)],
      q_limit = Some 1\<rparr>"

text \<open>
  On that query, in plain-string mode, every placeholder appears and every other clause is
  rendered.
\<close>

lemma unknown_references_example:
  "getFieldTarget sample_env (Ref (plain_field 9)) orders_metadata = Inl ResolutionError
   \<and> getFieldName sample_env orders_metadata (Ref (plain_field 9)) = Str ''[Unknown Field]''
   \<and> findMetric (md_metrics orders_metadata) 7 = None
   \<and> describeAggregation sample_env orders_metadata no_options (Metric 7) =
        Arr [Str ''[Unknown Metric]'']
   \<and> findSegment (md_segments orders_metadata) 3 = None
   \<and> getFilterClauseDescription sample_env orders_metadata no_options (SegmentF 3) =
        Str ''[Unknown Segment]''
   \<and> generateQueryDescription sample_env (Some orders_metadata) mixed_query no_options =
        Str (''Orders, [Unknown Metric] and Average of [Unknown Field], ''
             @ ''Grouped by Created At and [Unknown Field], ''
             @ ''Filtered by [Unknown Segment] and Status, ''
             @ ''Sorted by [Unknown Field] ascending and Created At descending, 1 row'')"
proof -
  have f: "getFieldTarget sample_env (Ref (plain_field 9)) orders_metadata = Inl ResolutionError"
    by (simp add: sample_env_def plain_field_def orders_metadata_def)
  have m: "findMetric (md_metrics orders_metadata) 7 = None"
    by (simp add: findMetric_def orders_metadata_def)
  have s: "findSegment (md_segments orders_metadata) 3 = None"
    by (simp add: findSegment_def orders_metadata_def)
  have j: "\<not> is_jsx no_options"
    by (simp add: is_jsx_def no_options_def)
  have d: "generateQueryDescription sample_env (Some orders_metadata) mixed_query no_options =
        Str (''Orders, [Unknown Metric] and Average of [Unknown Field], ''
             @ ''Grouped by Created At and [Unknown Field], ''
             @ ''Filtered by [Unknown Segment] and Status, ''
             @ ''Sorted by [Unknown Field] ascending and Created At descending, 1 row'')"
    by code_simp
  show ?thesis
    using unknown_references_placeholders
      [where e = sample_env and f = "Ref (plain_field 9)" and md = orders_metadata
         and err = ResolutionError and i = 7 and opts = no_options and j = 3
         and q = mixed_query]
      f m s j d
    by simp
qed

text \<open>A metric or segment that the metadata lists is described by its name.\<close>

lemma known_metric_and_segment:
  "(findMetric (md_metrics md) i = Some m \<longrightarrow>
      describeAggregation e md opts (Metric i) =
        Arr [if is_jsx opts then Elem ''MetricClause'' (Str (metric_name m))
             else Str (metric_name m)])
   \<and> (findSegment (md_segments md) j = Some s \<longrightarrow>
        getFilterClauseDescription e md opts (SegmentF j) =
          (if is_jsx opts then Elem ''FilterClause'' (Str (segment_name s))
           else Str (segment_name s)))"
  by (simp add: describeAggregation_def)

text \<open>
  C8 in jsx mode. For a query with the three aggregations \<^verbatim>\<open>["metric", i]\<close>,
  \<^verbatim>\<open>["count"]\<close>, \<^verbatim>\<open>["count"]\<close> against metadata that lists no metric, the aggregation
  section of \<^verbatim>\<open>generateQueryDescription\<close> with \<^verbatim>\<open>jsx: true\<close> does not hold the label
  "[Unknown Metric]": the branch of \<^verbatim>\<open>conjunctList\<close> for three or more items joins all but
  the last item into one string, and the element that wraps the label prints there as
  "[object Object]". With two aggregations the branch for two items keeps the element with
  its label.
\<close>

theorem unknown_metric_label_lost_in_jsx:
  "generateQueryDescription e
     (Some \<lparr>md_display_name = n, md_metrics = [], md_segments = sg, md_fields = fs\<rparr>)
     \<lparr>q_aggregation = [Metric i, Count, Count], q_breakout = b, q_filter = f, q_order_by = ob,
      q_limit = l\<rparr>
     \<lparr>jsx = Some True, sections = Some [Aggregation]\<rparr> =
   Elem ''span''
     (Arr [Str ''[object Object], Count'', Str '', '', Str ''and'', Str '' '', Str ''Count''])
   \<and> generateQueryDescription e
     (Some \<lparr>md_display_name = n, md_metrics = [], md_segments = sg, md_fields = fs\<rparr>)
     \<lparr>q_aggregation = [Metric i, Count], q_breakout = b, q_filter = f, q_order_by = ob,
      q_limit = l\<rparr>
     \<lparr>jsx = Some True, sections = Some [Aggregation]\<rparr> =
   Elem ''span''
     (Arr [Elem ''MetricClause'' (Str ''[Unknown Metric]''), Str '' '', Str ''and'', Str '' '',
           Str ''Count''])"
  by (simp add: generateQueryDescription_def describe_sections_def sections_of_def is_jsx_def
      section_parts_def flatten_def getAggregationDescription_def getAggregations_def
      describeAggregation_def findMetric_def js_join_def)

text \<open>
  The whole description of the orders query with those three aggregations, in jsx mode and
  in the concrete environment.
\<close>

lemma unknown_metric_label_lost_example:
  "generateQueryDescription sample_env (Some orders_metadata)
     (orders_query\<lparr>q_aggregation := [Metric 7, Count, Count]\<rparr>)
     \<lparr>jsx = Some True, sections = None\<rparr> =
   Elem ''span''
     (Arr [Str ''Orders'', Str '', '', Str ''[object Object], Count'', Str '', '', Str ''and'',
           Str '' '', Str ''Count'', Str '', '', Str ''Grouped by '', Str ''Created At'',
           Str '', '', Str ''Filtered by '', Str ''Status'', Str '', '', Num 10, Str '' '',
           Str ''rows''])"
  by code_simp

section \<open>The filter section of the two formatters\<close>

text \<open>
The display string of a payload entry.
\<close>

definition entry_text :: "filter_entry \<Rightarrow> string" where
  "entry_text f =
     (case fe_segment f of
        Some s \<Rightarrow> s
      | None \<Rightarrow> (case fe_field f of Some s \<Rightarrow> s | None \<Rightarrow> []))"

text \<open>
A query with two filters, on the fields 2 and 1.
\<close>

definition two_filter_query :: query where
  "two_filter_query =
     \<lparr>q_aggregation = [], q_breakout = [],
      q_filter = Some (AndF [FieldFilter ''='' (Ref (plain_field 2)) [LNum 5],
                             FieldFilter ''>'' (Ref (plain_field 1)) [LStr ''2020-01-01'']]),
      q_order_by = [], q_limit = None\<rparr>"

lemma formatFilterEntry_text: "\<not> is_jsx opts \<Longrightarrow> item_text (formatFilterEntry opts f) = entry_text f"
  by (simp add: formatFilterEntry_def entry_text_def item_text_simps split: option.splits)

lemma formatFilterDescription_text:
  "\<not> is_jsx opts \<Longrightarrow>
   plain_text (formatFilterDescription p opts) =
     (if p_filter p = [] then []
      else ''Filtered by '' @ join_strings '', '' (map entry_text (p_filter p)))"
  by (simp add: formatFilterDescription_def plain_text_Arr item_text_simps joinList_text
      comp_def formatFilterEntry_text)

lemma described_entry_text:
  "entry_text (described_entry e md f) = item_text (getFilterClauseDescription e md no_options f)"
  by (cases f) (simp_all add: described_entry_def entry_text_def)

text \<open>
  C7, as the code has it. In plain-string mode \<^verbatim>\<open>formatFilterDescription\<close> prints
  "Filtered by " and the display strings of its entries separated by ", ", with no
  conjunction word. On a payload that carries the display strings of a query's filters it
  agrees with \<^verbatim>\<open>getFilterDescription\<close> when the query has at most one filter.
\<close>

theorem formatFilterDescription_joins_with_commas:
  "(\<not> is_jsx opts \<longrightarrow>
      plain_text (formatFilterDescription p opts) =
        (if p_filter p = [] then []
         else ''Filtered by '' @ join_strings '', '' (map entry_text (p_filter p))))
   \<and> (length (getFilters q) \<le> 1 \<longrightarrow>
        plain_text (formatFilterDescription (described_parts e md q) no_options) =
          plain_text (getFilterDescription e md q no_options))"
proof -
  have j: "\<not> is_jsx no_options" by (simp add: is_jsx_def no_options_def)
  have "plain_text (formatFilterDescription (described_parts e md q) no_options) =
          plain_text (getFilterDescription e md q no_options)"
    if "length (getFilters q) \<le> 1"
  proof (cases "getFilters q")
    case Nil
    then show ?thesis
      by (simp add: formatFilterDescription_text [OF j] described_parts_def
          getFilterDescription_def plain_text_Undefined)
  next
    case (Cons c cs)
    with that have "cs = []" by simp
    with Cons show ?thesis
      by (simp add: formatFilterDescription_text [OF j] described_parts_def
          getFilterDescription_def plain_text_Arr item_text_simps described_entry_text)
  qed
  then show ?thesis by (simp add: formatFilterDescription_text)
qed

text \<open>
  Both parts on concrete inputs: two entries are joined by a comma, and the orders query
  with its single filter is described alike by the two formatters.
\<close>

theorem formatFilterDescription_joins_with_commas_witness:
  "\<not> is_jsx no_options
   \<and> plain_text (formatFilterDescription
                   (described_parts sample_env orders_metadata two_filter_query) no_options) =
       ''Filtered by Status, Created At''
   \<and> length (getFilters orders_query) \<le> 1
   \<and> plain_text (formatFilterDescription
                   (described_parts sample_env orders_metadata orders_query) no_options) =
       plain_text (getFilterDescription sample_env orders_metadata orders_query no_options)"
proof -
  have j: "\<not> is_jsx no_options" by (simp add: is_jsx_def no_options_def)
  have l: "length (getFilters orders_query) \<le> 1" by (simp add: getFilters_def orders_query_def)
  have t: "map entry_text (p_filter (described_parts sample_env orders_metadata two_filter_query))
      = [''Status'', ''Created At'']"
    by code_simp
  have n: "p_filter (described_parts sample_env orders_metadata two_filter_query) \<noteq> []"
    by (simp add: described_parts_def getFilters_def two_filter_query_def)
  show ?thesis
    using formatFilterDescription_joins_with_commas
      [of no_options "described_parts sample_env orders_metadata two_filter_query"
          orders_query sample_env orders_metadata]
      j l t n
    by simp
qed

text \<open>
  With two filters the two formatters differ on equivalent inputs.
\<close>

theorem formatFilterDescription_counterexample:
  "plain_text (formatFilterDescription
                 (described_parts sample_env orders_metadata two_filter_query) no_options) \<noteq>
   plain_text (getFilterDescription sample_env orders_metadata two_filter_query no_options)"
  by code_simp

text \<open>
The two texts.
\<close>

lemma two_filter_texts:
  "plain_text (formatFilterDescription
                 (described_parts sample_env orders_metadata two_filter_query) no_options) =
     ''Filtered by Status, Created At''"
  "plain_text (getFilterDescription sample_env orders_metadata two_filter_query no_options) =
     ''Filtered by Status and Created At''"
  by code_simp+

section \<open>The distribution drill\<close>

text \<open>
The filters of a question, and a question whose query has every clause group filled.
\<close>

definition question_filters :: "question \<Rightarrow> filter_clause list" where
  "question_filters qn = (case qn_query qn of Structured q \<Rightarrow> sq_filters q | Native n \<Rightarrow> [])"

definition status_filter :: filter_clause where
  "status_filter = FieldFilter ''='' (Ref (plain_field 2)) [LNum 5]"

definition filtered_question :: question where
  "filtered_question =
     \<lparr>qn_query = Structured
        \<lparr>sq_aggregations = [SumOf (Ref (plain_field 3))], sq_breakouts = [plain_field 2],
         sq_filters = [status_filter], sq_sorts = [(''asc'', plain_field 2)],
         sq_limit = Some 10\<rparr>,
      qn_display = ''table''\<rparr>"

definition date_column :: column where
  "date_column =
     \<lparr>col_field_ref = plain_field 1, col_unit = None, col_is_date = True, col_is_number = False\<rparr>"

text \<open>
  C4, as the code has it. For a structured query and a temporal column, \<^verbatim>\<open>distribution\<close>
  returns a question displayed as a bar chart whose query has the single aggregation count,
  the column's reference with the temporal unit month as its only breakout, no sort and no
  limit; the filters of the query are kept as they are (there is no call that clears them).
\<close>

theorem distribution_of_temporal_column:
  "(isDate col \<longrightarrow>
      distribution \<lparr>qn_query = Structured q, qn_display = d\<rparr> col =
        Some \<lparr>qn_query = Structured
                \<lparr>sq_aggregations = [Count],
                 sq_breakouts =
                   [fieldRefWithOption (fieldRefForColumn col) (TemporalUnit ''month'')],
                 sq_filters = sq_filters q,
                 sq_sorts = [],
                 sq_limit = None\<rparr>,
              qn_display = ''bar''\<rparr>)
   \<and> fieldRefWithOption (FieldRef i opts) (TemporalUnit ''month'') =
       FieldRef i (opts\<lparr>temporal_unit := Some ''month''\<rparr>)"
  by (simp add: distribution_def clearAggregations_def clearBreakouts_def clearSort_def
      clearLimit_def aggregate_def breakout_def)

text \<open>
On a question with one filter, a sum, a breakout, a sort and a limit.
\<close>

theorem distribution_of_temporal_column_witness:
  "isDate date_column
   \<and> distribution filtered_question date_column =
       Some \<lparr>qn_query = Structured
               \<lparr>sq_aggregations = [Count],
                sq_breakouts = [FieldRef 1 \<lparr>temporal_unit = Some ''month'', binning = None,
                                            source_field = None\<rparr>],
                sq_filters = [status_filter],
                sq_sorts = [],
                sq_limit = None\<rparr>,
             qn_display = ''bar''\<rparr>"
proof -
  have a: "isDate date_column" by (simp add: isDate_def date_column_def)
  have b: "fieldRefForColumn date_column = plain_field 1"
    by (simp add: fieldRefForColumn_def date_column_def)
  show ?thesis
    using distribution_of_temporal_column
      [of date_column
          "\<lparr>sq_aggregations = [SumOf (Ref (plain_field 3))], sq_breakouts = [plain_field 2],
            sq_filters = [status_filter], sq_sorts = [(''asc'', plain_field 2)],
            sq_limit = Some 10\<rparr>" "''table''" 1
          "\<lparr>temporal_unit = None, binning = None, source_field = None\<rparr>"] a b
    by (simp add: filtered_question_def plain_field_def)
qed

text \<open>
The result of that call still contains the filter.
\<close>

theorem distribution_keeps_filters_counterexample:
  "map_option question_filters (distribution filtered_question date_column) =
     Some [status_filter]
   \<and> [status_filter] \<noteq> []"
  by (simp add: distribution_def isDate_def fieldRefForColumn_def clearAggregations_def
      clearBreakouts_def clearSort_def clearLimit_def aggregate_def breakout_def
      filtered_question_def date_column_def question_filters_def)

section \<open>Adding or replacing a filter\<close>

text \<open>
  The filters of a list that target the base dimension of \<open>d\<close>, and the position
  \<^verbatim>\<open>addOrUpdateFilter\<close> gives a new filter: that of the first filter on its dimension, or
  the end of the list.
\<close>

definition on_dimension :: "field_ref \<Rightarrow> filter_clause \<Rightarrow> bool" where
  "on_dimension d f =
     (case filter_dimension f of None \<Rightarrow> False | Some d' \<Rightarrow> isSameBaseDimension d' d)"

definition filters_on :: "field_ref \<Rightarrow> filter_clause list \<Rightarrow> filter_clause list" where
  "filters_on d fs = filter (on_dimension d) fs"

definition position_for :: "structured_query \<Rightarrow> filter_clause \<Rightarrow> nat" where
  "position_for q f =
     (case first_index (filter_matches f) (sq_filters q) of
        Some i \<Rightarrow> i
      | None \<Rightarrow> length (sq_filters q))"

lemma first_index_Some:
  "first_index P xs = Some i \<Longrightarrow> i < length xs \<and> P (xs ! i) \<and> (\<forall>j<i. \<not> P (xs ! j))"
proof (induction xs arbitrary: i)
  case Nil
  then show ?case by simp
next
  case (Cons x xs)
  show ?case
  proof (cases "P x")
    case True
    with Cons.prems show ?thesis by simp
  next
    case False
    with Cons.prems obtain k where k: "first_index P xs = Some k" "i = Suc k" by auto
    from Cons.IH [OF k(1)] False k(2) show ?thesis
      by (auto simp: nth_Cons split: nat.splits)
  qed
qed

lemma first_index_None: "first_index P xs = None \<longleftrightarrow> (\<forall>x\<in>set xs. \<not> P x)"
  by (induction xs) auto

lemma first_index_update:
  "first_index P xs = Some i \<Longrightarrow> P y \<Longrightarrow> first_index P (xs[i := y]) = Some i"
proof (induction xs arbitrary: i)
  case Nil
  then show ?case by simp
next
  case (Cons x xs)
  show ?case
  proof (cases "P x")
    case True
    with Cons.prems show ?thesis by simp
  next
    case False
    with Cons.prems obtain k where k: "first_index P xs = Some k" "i = Suc k" by auto
    from Cons.IH [OF k(1) Cons.prems(2)] False k(2) show ?thesis by simp
  qed
qed

lemma first_index_snoc:
  "first_index P xs = None \<Longrightarrow> P y \<Longrightarrow> first_index P (xs @ [y]) = Some (length xs)"
  by (induction xs) (auto split: if_splits)

lemma filter_update_single:
  "i < length xs \<Longrightarrow> P (xs ! i) \<Longrightarrow> P y \<Longrightarrow> length (filter P xs) \<le> 1 \<Longrightarrow>
   filter P (xs[i := y]) = [y]"
proof (induction xs arbitrary: i)
  case Nil
  then show ?case by simp
next
  case (Cons x xs)
  show ?case
  proof (cases i)
    case 0
    with Cons.prems have "filter P xs = []" by simp
    with 0 Cons.prems show ?thesis by simp
  next
    case (Suc k)
    with Cons.prems have k: "k < length xs" "P (xs ! k)" by simp_all
    then have ne: "filter P xs \<noteq> []" by (auto simp: filter_empty_conv)
    with Cons.prems(4) have nx: "\<not> P x" by (auto split: if_splits simp: Suc_le_eq)
    with Cons.prems(4) have "length (filter P xs) \<le> 1" by simp
    from Cons.IH [OF k Cons.prems(3) this] nx Suc show ?thesis by simp
  qed
qed

lemma filter_matches_on_dimension:
  "filter_dimension f = Some d \<Longrightarrow> filter_matches f = on_dimension d"
  by (rule ext) (simp add: filter_matches_def on_dimension_def split: option.splits)

lemma on_dimension_same:
  "isSameBaseDimension d1 d2 \<Longrightarrow> on_dimension d1 = on_dimension d2"
  by (rule ext) (simp add: on_dimension_def isSameBaseDimension_def split: option.splits)

lemma on_dimension_self: "filter_dimension f = Some d \<Longrightarrow> on_dimension d f"
  by (simp add: on_dimension_def isSameBaseDimension_def)

text \<open>
  C5, as the code has it. When \<open>f1\<close> and \<open>f2\<close> target the same base dimension, the
  second call puts \<open>f2\<close> at the position \<open>f1\<close> held and appends nothing. The loop
  replaces the first filter on the dimension only, so the result has exactly one filter on
  the dimension, \<open>f2\<close>, when the query had at most one to begin with.
\<close>

theorem addOrUpdateFilter_twice:
  assumes d1: "filter_dimension f1 = Some d1"
    and d2: "filter_dimension f2 = Some d2"
    and same: "isSameBaseDimension d1 d2"
  shows "sq_filters (addOrUpdateFilter (addOrUpdateFilter q f1) f2) =
           (sq_filters (addOrUpdateFilter q f1))[position_for q f1 := f2]
         \<and> position_for q f1 < length (sq_filters (addOrUpdateFilter q f1))
         \<and> sq_filters (addOrUpdateFilter q f1) ! position_for q f1 = f1
         \<and> length (sq_filters (addOrUpdateFilter (addOrUpdateFilter q f1) f2)) =
             length (sq_filters (addOrUpdateFilter q f1))
         \<and> (length (filters_on d1 (sq_filters q)) \<le> 1 \<longrightarrow>
              filters_on d1 (sq_filters (addOrUpdateFilter (addOrUpdateFilter q f1) f2)) = [f2])"
proof -
  let ?P = "on_dimension d1"
  let ?fs = "sq_filters q"
  have m1: "filter_matches f1 = ?P" using d1 by (rule filter_matches_on_dimension)
  have m2: "filter_matches f2 = ?P"
    using filter_matches_on_dimension [OF d2] on_dimension_same [OF same] by simp
  have p1: "?P f1" using d1 by (rule on_dimension_self)
  have p2: "?P f2" using on_dimension_self [OF d2] on_dimension_same [OF same] by simp
  show ?thesis
  proof (cases "first_index ?P ?fs")
    case None
    then have q1: "sq_filters (addOrUpdateFilter q f1) = ?fs @ [f1]"
      by (simp add: addOrUpdateFilter_def m1 add_filter_def)
    have i2: "first_index ?P (?fs @ [f1]) = Some (length ?fs)"
      using None p1 by (rule first_index_snoc)
    have q2: "sq_filters (addOrUpdateFilter (addOrUpdateFilter q f1) f2) = ?fs @ [f2]"
      using q1 i2 by (simp add: addOrUpdateFilter_def [of "addOrUpdateFilter q f1"] m2 replace_filter_def)
    have pos: "position_for q f1 = length ?fs"
      using None by (simp add: position_for_def m1)
    have none: "filter ?P ?fs = []"
      using None by (simp add: first_index_None)
    show ?thesis
      using q1 q2 pos none p2 by (simp add: filters_on_def)
  next
    case (Some i)
    note fi = first_index_Some [OF Some]
    have q1: "sq_filters (addOrUpdateFilter q f1) = ?fs[i := f1]"
      using Some by (simp add: addOrUpdateFilter_def m1 replace_filter_def)
    have i2: "first_index ?P (?fs[i := f1]) = Some i"
      using Some p1 by (rule first_index_update)
    have q2: "sq_filters (addOrUpdateFilter (addOrUpdateFilter q f1) f2) = ?fs[i := f2]"
      using q1 i2 by (simp add: addOrUpdateFilter_def [of "addOrUpdateFilter q f1"] m2 replace_filter_def)
    have pos: "position_for q f1 = i"
      using Some by (simp add: position_for_def m1)
    have one: "filter ?P (?fs[i := f2]) = [f2]" if "length (filter ?P ?fs) \<le> 1"
      using fi p2 that by (intro filter_update_single) simp_all
    show ?thesis
      using q1 q2 pos fi one by (simp add: filters_on_def)
  qed
qed

text \<open>
A query with two filters on the field 2, and one with a filter on the field 1 bucketed by day.
\<close>

definition two_status_filters :: structured_query where
  "two_status_filters =
     \<lparr>sq_aggregations = [Count], sq_breakouts = [],
      sq_filters = [FieldFilter ''>'' (Ref (plain_field 2)) [LNum 1],
                    FieldFilter ''<'' (Ref (plain_field 2)) [LNum 9]],
      sq_sorts = [], sq_limit = None\<rparr>"

definition one_day_filter :: structured_query where
  "one_day_filter =
     \<lparr>sq_aggregations = [Count], sq_breakouts = [],
      sq_filters = [FieldFilter ''>'' (Ref (plain_field 2)) [LNum 1],
                    FieldFilter ''='' (Ref day_field) [LStr ''2020-01-01'']],
      sq_sorts = [], sq_limit = None\<rparr>"

text \<open>
  On a query with two filters on the field 2, two calls with filters on that field leave
  two filters on it.
\<close>

theorem addOrUpdateFilter_twice_counterexample:
  "filters_on (plain_field 2)
     (sq_filters (addOrUpdateFilter
        (addOrUpdateFilter two_status_filters (FieldFilter ''='' (Ref (plain_field 2)) [LNum 3]))
        (FieldFilter ''='' (Ref (plain_field 2)) [LNum 4]))) =
   [FieldFilter ''='' (Ref (plain_field 2)) [LNum 4],
    FieldFilter ''<'' (Ref (plain_field 2)) [LNum 9]]"
  by code_simp

text \<open>
  On a query whose second filter is on the field 1: both calls write the position 1.
\<close>

theorem addOrUpdateFilter_twice_witness:
  "filter_dimension (FieldFilter ''>'' (Ref (plain_field 1)) [LNum 3]) = Some (plain_field 1)
   \<and> filter_dimension (FieldFilter ''='' (Ref (plain_field 1)) [LNum 4]) = Some (plain_field 1)
   \<and> isSameBaseDimension (plain_field 1) (plain_field 1)
   \<and> length (filters_on (plain_field 1) (sq_filters one_day_filter)) \<le> 1
   \<and> position_for one_day_filter (FieldFilter ''>'' (Ref (plain_field 1)) [LNum 3]) = 1
   \<and> sq_filters (addOrUpdateFilter
        (addOrUpdateFilter one_day_filter (FieldFilter ''>'' (Ref (plain_field 1)) [LNum 3]))
        (FieldFilter ''='' (Ref (plain_field 1)) [LNum 4])) =
      [FieldFilter ''>'' (Ref (plain_field 2)) [LNum 1],
       FieldFilter ''='' (Ref (plain_field 1)) [LNum 4]]
   \<and> filters_on (plain_field 1) (sq_filters (addOrUpdateFilter
        (addOrUpdateFilter one_day_filter (FieldFilter ''>'' (Ref (plain_field 1)) [LNum 3]))
        (FieldFilter ''='' (Ref (plain_field 1)) [LNum 4]))) =
      [FieldFilter ''='' (Ref (plain_field 1)) [LNum 4]]"
proof -
  let ?f1 = "FieldFilter ''>'' (Ref (plain_field 1)) [LNum 3]"
  let ?f2 = "FieldFilter ''='' (Ref (plain_field 1)) [LNum 4]"
  have a: "filter_dimension ?f1 = Some (plain_field 1)" by simp
  have b: "filter_dimension ?f2 = Some (plain_field 1)" by simp
  have c: "isSameBaseDimension (plain_field 1) (plain_field 1)"
    by (simp add: isSameBaseDimension_def)
  have d: "length (filters_on (plain_field 1) (sq_filters one_day_filter)) \<le> 1"
    by code_simp
  have e: "sq_filters (addOrUpdateFilter one_day_filter ?f1) =
      [FieldFilter ''>'' (Ref (plain_field 2)) [LNum 1], ?f1]"
    by code_simp
  have p: "position_for one_day_filter ?f1 = 1"
    by code_simp
  note T = addOrUpdateFilter_twice [OF a b c, of one_day_filter]
  have r1: "sq_filters (addOrUpdateFilter (addOrUpdateFilter one_day_filter ?f1) ?f2) =
      [FieldFilter ''>'' (Ref (plain_field 2)) [LNum 1], ?f2]"
    using T e p by simp
  have r2: "filters_on (plain_field 1)
      (sq_filters (addOrUpdateFilter (addOrUpdateFilter one_day_filter ?f1) ?f2)) = [?f2]"
    using T d by blast
  show ?thesis
    using a b c d p r1 r2 by blast
qed

section \<open>The unit loop\<close>

lemma unit_loop_iterate:
  "unit_loop iv unit = (getNextUnit ^^ unit_loop_iterations iv unit) unit"
proof (induction iv unit rule: unit_loop.induct)
  case (1 iv unit)
  show ?case
  proof (cases "unit \<noteq> getNextUnit unit \<and> iv unit < MIN_INTERVALS")
    case True
    then have "unit_loop iv unit = unit_loop iv (getNextUnit unit)"
      by (subst unit_loop.simps) simp
    moreover have "unit_loop_iterations iv unit = Suc (unit_loop_iterations iv (getNextUnit unit))"
      using True by (subst unit_loop_iterations.simps) simp
    ultimately show ?thesis
      using 1 True by (simp add: funpow_swap1)
  next
    case False
    then have "unit_loop iv unit = unit" by (subst unit_loop.simps) auto
    moreover have "unit_loop_iterations iv unit = 0"
      using False by (subst unit_loop_iterations.simps) auto
    ultimately show ?thesis by simp
  qed
qed

lemma unit_loop_rank: "unit_rank (unit_loop iv unit) \<le> unit_rank unit"
proof (induction iv unit rule: unit_loop.induct)
  case (1 iv unit)
  show ?case
  proof (cases "unit \<noteq> getNextUnit unit \<and> iv unit < MIN_INTERVALS")
    case True
    then have "unit_loop iv unit = unit_loop iv (getNextUnit unit)"
      by (subst unit_loop.simps) simp
    moreover have "unit_rank (getNextUnit unit) < unit_rank unit"
      using True by (simp add: getNextUnit_rank)
    ultimately show ?thesis using 1 True by simp
  next
    case False
    then have "unit_loop iv unit = unit" by (subst unit_loop.simps) auto
    then show ?thesis by simp
  qed
qed

lemma unit_loop_stop:
  "getNextUnit (unit_loop iv unit) = unit_loop iv unit
   \<or> MIN_INTERVALS \<le> iv (unit_loop iv unit)"
proof (induction iv unit rule: unit_loop.induct)
  case (1 iv unit)
  show ?case
  proof (cases "unit \<noteq> getNextUnit unit \<and> iv unit < MIN_INTERVALS")
    case True
    then have "unit_loop iv unit = unit_loop iv (getNextUnit unit)"
      by (subst unit_loop.simps) simp
    then show ?thesis using 1 True by simp
  next
    case False
    then have "unit_loop iv unit = unit" by (subst unit_loop.simps) auto
    then show ?thesis using False by auto
  qed
qed

lemma unit_loop_passed:
  "j < unit_loop_iterations iv unit \<Longrightarrow> iv ((getNextUnit ^^ j) unit) < MIN_INTERVALS"
proof (induction iv unit arbitrary: j rule: unit_loop_iterations.induct)
  case (1 iv unit)
  show ?case
  proof (cases "unit \<noteq> getNextUnit unit \<and> iv unit < MIN_INTERVALS")
    case True
    then have it: "unit_loop_iterations iv unit = Suc (unit_loop_iterations iv (getNextUnit unit))"
      by (subst unit_loop_iterations.simps) simp
    show ?thesis
    proof (cases j)
      case 0
      then show ?thesis using True by simp
    next
      case (Suc k)
      then have "k < unit_loop_iterations iv (getNextUnit unit)" using "1.prems" it by simp
      then have "iv ((getNextUnit ^^ k) (getNextUnit unit)) < MIN_INTERVALS"
        using "1.IH" True by simp
      then show ?thesis using Suc by (simp add: funpow_swap1)
    qed
  next
    case False
    then have "unit_loop_iterations iv unit = 0"
      by (subst unit_loop_iterations.simps) auto
    then show ?thesis using "1.prems" by simp
  qed
qed

lemma unit_loop_iterations_le_rank: "unit_loop_iterations iv unit \<le> unit_rank unit"
proof (induction iv unit rule: unit_loop_iterations.induct)
  case (1 iv unit)
  show ?case
  proof (cases "unit \<noteq> getNextUnit unit \<and> iv unit < MIN_INTERVALS")
    case True
    then have "unit_loop_iterations iv (getNextUnit unit) \<le> unit_rank (getNextUnit unit)"
      using 1 by simp
    moreover have "unit_rank (getNextUnit unit) < unit_rank unit"
      using True by (simp add: getNextUnit_rank)
    moreover have "unit_loop_iterations iv unit = Suc (unit_loop_iterations iv (getNextUnit unit))"
      using True by (subst unit_loop_iterations.simps) simp
    ultimately show ?thesis by simp
  next
    case False
    then have "unit_loop_iterations iv unit = 0"
      by (subst unit_loop_iterations.simps) auto
    then show ?thesis by simp
  qed
qed

lemma unit_loop_iterations_minute: "unit_loop_iterations iv ''minute'' = 0"
  by (subst unit_loop_iterations.simps) (simp add: getNextUnit_ladder)

lemma unit_loop_iterations_le_6: "unit_loop_iterations iv unit \<le> 6"
proof (cases "unit \<in> set UNITS")
  case True
  from in_UNITS [OF True] have "unit_rank unit \<le> 6"
    by (elim disjE) (simp_all add: unit_rank_ladder)
  with unit_loop_iterations_le_rank [of iv unit] show ?thesis by simp
next
  case False
  then have "getNextUnit unit = ''minute''" by (rule getNextUnit_other)
  then have "unit_loop_iterations iv unit \<le> 1"
    by (subst unit_loop_iterations.simps) (simp add: unit_loop_iterations_minute)
  then show ?thesis by simp
qed

lemma indexOf_getNextUnit:
  "indexOf UNITS (getNextUnit unit) = max 0 (indexOf UNITS unit - 1)"
proof (cases "unit \<in> set UNITS")
  case True
  from in_UNITS [OF True] show ?thesis
    by (elim disjE) (simp_all add: getNextUnit_ladder indexOf_UNITS)
next
  case False
  then show ?thesis by (simp add: getNextUnit_other indexOf_other) (simp add: indexOf_UNITS)
qed

section \<open>Termination of the unit loop\<close>

text \<open>
  C10. The loop ends for every input, after at most 6 runs of its body, at the unit reached
  by that many steps of \<^verbatim>\<open>getNextUnit\<close>. \<^verbatim>\<open>getNextUnit\<close> maps the first unit of the ladder
  to itself and takes the index of every other unit down by one (a string outside the ladder
  goes to the first unit); the loop stops where \<^verbatim>\<open>getNextUnit\<close> no longer moves or the
  range has at least \<^verbatim>\<open>MIN_INTERVALS\<close> intervals.
\<close>

theorem unit_loop_terminates:
  "unit_loop_iterations iv unit \<le> 6
   \<and> unit_loop iv unit = (getNextUnit ^^ unit_loop_iterations iv unit) unit
   \<and> getNextUnit (UNITS ! 0) = UNITS ! 0
   \<and> indexOf UNITS (getNextUnit unit) = max 0 (indexOf UNITS unit - 1)
   \<and> (getNextUnit (unit_loop iv unit) = unit_loop iv unit
        \<or> MIN_INTERVALS \<le> iv (unit_loop iv unit))"
  using unit_loop_iterations_le_6 [of iv unit] unit_loop_iterate [of iv unit]
    indexOf_getNextUnit [of unit] unit_loop_stop [of iv unit]
  by (simp add: UNITS_def getNextUnit_ladder)

text \<open>
  From the unit year on an empty range the loop runs all 6 steps down to minute.
\<close>

theorem unit_loop_terminates_witness:
  "unit_loop_iterations (range_intervals utc_moment ''year'' 0 0) ''year'' = 6
   \<and> unit_loop_iterations (range_intervals utc_moment ''year'' 0 0) ''year'' \<le> 6
   \<and> unit_loop (range_intervals utc_moment ''year'' 0 0) ''year'' = ''minute''
   \<and> indexOf UNITS (getNextUnit ''year'') = 5"
proof -
  have a: "unit_loop_iterations (range_intervals utc_moment ''year'' 0 0) ''year'' = 6"
    by code_simp
  have b: "unit_loop (range_intervals utc_moment ''year'' 0 0) ''year'' = ''minute''"
    by code_simp
  have c: "indexOf UNITS ''year'' = 6" by (simp add: indexOf_UNITS)
  show ?thesis
    using unit_loop_terminates [of "range_intervals utc_moment ''year'' 0 0" "''year''"] a b c
    by simp
qed

section \<open>The unit chosen for a selected range\<close>

lemma addOrUpdateFilter_keeps:
  "sq_breakouts (addOrUpdateFilter q f) = sq_breakouts q"
  "sq_aggregations (addOrUpdateFilter q f) = sq_aggregations q"
  "sq_sorts (addOrUpdateFilter q f) = sq_sorts q"
  "sq_limit (addOrUpdateFilter q f) = sq_limit q"
  by (simp_all add: addOrUpdateFilter_def replace_filter_def add_filter_def split: option.splits)

lemma addOrUpdateBreakout_keeps:
  "sq_filters (addOrUpdateBreakout q b) = sq_filters q"
  "sq_aggregations (addOrUpdateBreakout q b) = sq_aggregations q"
  "sq_sorts (addOrUpdateBreakout q b) = sq_sorts q"
  "sq_limit (addOrUpdateBreakout q b) = sq_limit q"
  by (simp_all add: addOrUpdateBreakout_def replace_breakout_def breakout_def split: option.splits)

lemma updateDateTimeFilter_breakouts:
  "column_unit col = Some cu \<Longrightarrow>
   sq_breakouts (updateDateTimeFilter M q col s e) =
     sq_breakouts (addOrUpdateBreakout q
        (fieldRefWithTemporalUnit (fieldRefForColumn col) (selected_unit M cu s e)))"
  by (simp add: updateDateTimeFilter_def Let_def addOrUpdateFilter_keeps)

lemma day_to_hour:
  "iv ''day'' < MIN_INTERVALS \<Longrightarrow> MIN_INTERVALS \<le> iv ''hour'' \<Longrightarrow> unit_loop iv ''day'' = ''hour''"
  by (subst unit_loop.simps, simp add: getNextUnit_ladder, subst unit_loop.simps, simp)

text \<open>
  C1, as the code has it. The breakout unit is reached from the column's unit by stepping
  towards finer units of the ladder (year, quarter, month, week, day, hour, minute): every
  unit passed spans fewer than 4 intervals of the clamped range, the loop stops at the
  first unit that spans at least 4 or at the finest unit, and the result is never coarser
  than the column's unit (\<open>unit_rank\<close> is the index in the ladder). The breakout of the
  returned query is the one \<^verbatim>\<open>addOrUpdateBreakout\<close> sets for that unit. For a column
  with unit day and a range with fewer than 4 days and at least 4 hours the unit is hour.
\<close>

theorem selected_unit_steps_finer:
  "selected_unit M cu s e =
     (getNextUnit ^^ unit_loop_iterations (range_intervals M cu s e) cu) cu
   \<and> unit_rank (selected_unit M cu s e) \<le> unit_rank cu
   \<and> (getNextUnit (selected_unit M cu s e) = selected_unit M cu s e
        \<or> MIN_INTERVALS \<le> range_intervals M cu s e (selected_unit M cu s e))
   \<and> (\<forall>j. j < unit_loop_iterations (range_intervals M cu s e) cu \<longrightarrow>
          range_intervals M cu s e ((getNextUnit ^^ j) cu) < MIN_INTERVALS)
   \<and> (column_unit col = Some cu \<longrightarrow>
        sq_breakouts (updateDateTimeFilter M q col s e) =
          sq_breakouts (addOrUpdateBreakout q
             (fieldRefWithTemporalUnit (fieldRefForColumn col) (selected_unit M cu s e))))
   \<and> (range_intervals M ''day'' s e ''day'' < MIN_INTERVALS
        \<and> MIN_INTERVALS \<le> range_intervals M ''day'' s e ''hour'' \<longrightarrow>
        selected_unit M ''day'' s e = ''hour'')"
  using unit_loop_iterate [of "range_intervals M cu s e" cu]
    unit_loop_rank [of "range_intervals M cu s e" cu]
    unit_loop_stop [of "range_intervals M cu s e" cu]
    unit_loop_passed [of _ "range_intervals M cu s e" cu]
    updateDateTimeFilter_breakouts [of col cu M q s e]
    day_to_hour [of "range_intervals M ''day'' s e"]
  unfolding selected_unit_def by blast

text \<open>
The field 1 bucketed by hour.
\<close>

definition hour_field :: field_ref where
  "hour_field = FieldRef 1 \<lparr>temporal_unit = Some ''hour'', binning = None, source_field = None\<rparr>"

text \<open>
  The selection from 1970-01-01 to 1970-01-03 on a daily column: the clamped range has 1
  whole day and 47 hours, and the breakout becomes hourly.
\<close>

theorem selected_unit_steps_finer_witness:
  "column_unit day_column = Some ''day''
   \<and> range_intervals utc_moment ''day'' 0 172800000 ''day'' = 1
   \<and> range_intervals utc_moment ''day'' 0 172800000 ''hour'' = 47
   \<and> selected_unit utc_moment ''day'' 0 172800000 = ''hour''
   \<and> unit_rank ''hour'' \<le> unit_rank ''day''
   \<and> sq_breakouts (updateDateTimeFilter utc_moment daily_query day_column 0 172800000) =
       sq_breakouts (addOrUpdateBreakout daily_query hour_field)"
proof -
  have c: "column_unit day_column = Some ''day''"
    by (simp add: column_unit_def day_column_def)
  have d: "range_intervals utc_moment ''day'' 0 172800000 ''day'' = 1" by code_simp
  have h: "range_intervals utc_moment ''day'' 0 172800000 ''hour'' = 47" by code_simp
  have f: "fieldRefWithTemporalUnit (fieldRefForColumn day_column) ''hour'' = hour_field"
    by (simp add: fieldRefForColumn_def day_column_def plain_field_def hour_field_def)
  note T = selected_unit_steps_finer [of utc_moment "''day''" 0 172800000 day_column daily_query]
  have d': "range_intervals utc_moment ''day'' 0 172800000 ''day'' < MIN_INTERVALS"
    using d by (simp add: MIN_INTERVALS_def)
  have h': "MIN_INTERVALS \<le> range_intervals utc_moment ''day'' 0 172800000 ''hour''"
    using h by (simp add: MIN_INTERVALS_def)
  have u: "selected_unit utc_moment ''day'' 0 172800000 = ''hour''"
    using T d' h' by blast
  have "sq_breakouts (updateDateTimeFilter utc_moment daily_query day_column 0 172800000) =
       sq_breakouts (addOrUpdateBreakout daily_query
          (fieldRefWithTemporalUnit (fieldRefForColumn day_column)
             (selected_unit utc_moment ''day'' 0 172800000)))"
    using T c by blast
  then have b: "sq_breakouts (updateDateTimeFilter utc_moment daily_query day_column 0 172800000) =
       sq_breakouts (addOrUpdateBreakout daily_query hour_field)"
    using u f by simp
  show ?thesis
    using c d h u b by (simp add: unit_rank_ladder)
qed

text \<open>
  For that selection of 2 days on a column with unit day the breakout unit is hour, which
  is neither week nor a coarser unit.
\<close>

theorem selected_unit_counterexample:
  "sq_breakouts (updateDateTimeFilter utc_moment daily_query day_column 0 172800000) = [hour_field]
   \<and> ''hour'' \<notin> set [''week'', ''month'', ''quarter'', ''year'']"
proof -
  have "sq_breakouts (updateDateTimeFilter utc_moment daily_query day_column 0 172800000) =
      [hour_field]"
    by code_simp
  then show ?thesis by simp
qed

section \<open>A selection inside one bucket\<close>

text \<open>
  C2, as the code has it. When, after both bounds are snapped again to the column's unit,
  the start is after the end, the function returns the query with its breakout set for the
  selected unit and nothing else changed: no filter is added or replaced.
\<close>

theorem degenerate_range_updates_breakout_only:
  assumes "column_unit col = Some cu"
    and "m_isAfter M (m_startOf M (clamp_start M cu s) cu) (m_startOf M (clamp_end M cu e) cu)"
  shows "updateDateTimeFilter M q col s e =
           addOrUpdateBreakout q
             (fieldRefWithTemporalUnit (fieldRefForColumn col) (selected_unit M cu s e))
         \<and> sq_filters (updateDateTimeFilter M q col s e) = sq_filters q
         \<and> sq_aggregations (updateDateTimeFilter M q col s e) = sq_aggregations q
         \<and> sq_sorts (updateDateTimeFilter M q col s e) = sq_sorts q
         \<and> sq_limit (updateDateTimeFilter M q col s e) = sq_limit q"
  using assms by (simp add: updateDateTimeFilter_def Let_def addOrUpdateBreakout_keeps)

text \<open>
The field 1 bucketed by minute.
\<close>

definition minute_field :: field_ref where
  "minute_field = FieldRef 1 \<lparr>temporal_unit = Some ''minute'', binning = None, source_field = None\<rparr>"

text \<open>
  A selection from 10:00 to 15:00 of one day on a daily column: the start snaps to the next
  day, the end to the same day.
\<close>

theorem degenerate_range_updates_breakout_only_witness:
  "column_unit day_column = Some ''day''
   \<and> m_isAfter utc_moment
        (m_startOf utc_moment (clamp_start utc_moment ''day'' 36000000) ''day'')
        (m_startOf utc_moment (clamp_end utc_moment ''day'' 54000000) ''day'')
   \<and> updateDateTimeFilter utc_moment daily_query day_column 36000000 54000000 =
       daily_query\<lparr>sq_breakouts := [minute_field]\<rparr>
   \<and> sq_filters (updateDateTimeFilter utc_moment daily_query day_column 36000000 54000000) = []"
proof -
  have c: "column_unit day_column = Some ''day''"
    by (simp add: column_unit_def day_column_def)
  have a: "m_isAfter utc_moment
        (m_startOf utc_moment (clamp_start utc_moment ''day'' 36000000) ''day'')
        (m_startOf utc_moment (clamp_end utc_moment ''day'' 54000000) ''day'')"
    by code_simp
  have u: "addOrUpdateBreakout daily_query
         (fieldRefWithTemporalUnit (fieldRefForColumn day_column)
            (selected_unit utc_moment ''day'' 36000000 54000000)) =
       daily_query\<lparr>sq_breakouts := [minute_field]\<rparr>"
    by code_simp
  have f: "sq_filters daily_query = []" by (simp add: daily_query_def)
  show ?thesis
    using degenerate_range_updates_breakout_only [OF c a, of daily_query] c a u f by simp
qed

text \<open>
  For that selection the returned query is not the input query: its breakout went from day
  to minute.
\<close>

theorem degenerate_range_counterexample:
  "m_isAfter utc_moment
     (m_startOf utc_moment (clamp_start utc_moment ''day'' 36000000) ''day'')
     (m_startOf utc_moment (clamp_end utc_moment ''day'' 54000000) ''day'')
   \<and> updateDateTimeFilter utc_moment daily_query day_column 36000000 54000000 \<noteq> daily_query
   \<and> sq_breakouts (updateDateTimeFilter utc_moment daily_query day_column 36000000 54000000) =
       [minute_field]
   \<and> sq_breakouts daily_query = [day_field]"
  by code_simp

end
